theory Spec2Isabelle
  imports Main "HOL-Library.Sublist"
begin

section \<open>Python strings\<close>

text \<open>
  A Python \<open>str\<close> is modelled as a \<open>string\<close>, each \<open>char\<close> standing for one code point
  below 256. The classifications below (\<open>isspace\<close>, \<open>isdigit\<close>, \<open>lower\<close>) are Python's on
  that range.
\<close>

definition digit_char :: "nat \<Rightarrow> char" where
  "digit_char d = char_of (48 + d)"

fun str_nat :: "nat \<Rightarrow> string" where
  "str_nat n = (if n < 10 then [digit_char n] else str_nat (n div 10) @ [digit_char (n mod 10)])"

declare str_nat.simps [simp del]

text \<open>The value of a run of decimal digits (\<open>int(t)\<close>).\<close>

definition digits_val :: "string \<Rightarrow> nat" where
  "digits_val s = foldl (\<lambda>a c. 10 * a + (of_char c - 48)) 0 s"

text \<open>\<open>str(n)\<close> for a Python int.\<close>

definition py_str :: "int \<Rightarrow> string" where
  "py_str n = (if n < 0 then CHR ''-'' # str_nat (nat (- n)) else str_nat (nat n))"

text \<open>
  \<open>s.zfill(width)\<close>: zeros are inserted after a leading sign; a string at least \<open>width\<close>
  long (also when \<open>width\<close> is negative) is returned unchanged.
\<close>

definition zfill :: "string \<Rightarrow> int \<Rightarrow> string" where
  "zfill s width =
     (if width \<le> int (length s) then s
      else (case s of
              c # cs \<Rightarrow>
                if c = CHR ''+'' \<or> c = CHR ''-''
                then c # replicate (nat width - length s) CHR ''0'' @ cs
                else replicate (nat width - length s) CHR ''0'' @ s
            | [] \<Rightarrow> replicate (nat width) CHR ''0''))"

text \<open>\<open>sub in s\<close>.\<close>

fun contains :: "string \<Rightarrow> string \<Rightarrow> bool" where
  "contains sub [] = (sub = [])"
| "contains sub (c # cs) = (prefix sub (c # cs) \<or> contains sub cs)"

text \<open>\<open>s.replace("-n", new)\<close>: every occurrence, left to right, without overlap.\<close>

fun replace_token :: "string \<Rightarrow> string \<Rightarrow> string" where
  "replace_token new [] = []"
| "replace_token new [c] = [c]"
| "replace_token new (c # d # cs) =
     (if c = CHR ''-'' \<and> d = CHR ''n'' then new @ replace_token new cs
      else c # replace_token new (d # cs))"

definition lower_char :: "char \<Rightarrow> char" where
  "lower_char c =
     (let k = (of_char c :: nat)
      in if (65 \<le> k \<and> k \<le> 90) \<or> (192 \<le> k \<and> k \<le> 222 \<and> k \<noteq> 215)
         then char_of (k + 32) else c)"

definition lower :: "string \<Rightarrow> string" where
  "lower s = map lower_char s"

definition endswith :: "string \<Rightarrow> string \<Rightarrow> bool" where
  "endswith s e = suffix e s"

definition isspace_char :: "char \<Rightarrow> bool" where
  "isspace_char c =
     (let k = (of_char c :: nat)
      in (9 \<le> k \<and> k \<le> 13) \<or> (28 \<le> k \<and> k \<le> 32) \<or> k = 133 \<or> k = 160)"

definition strip :: "string \<Rightarrow> string" where
  "strip s = rev (dropWhile isspace_char (rev (dropWhile isspace_char s)))"

text \<open>The number of bytes of a string in UTF-8: two for a code point from 128 on.\<close>

definition utf8_len :: "string \<Rightarrow> int" where
  "utf8_len s = int (length s) + int (length (filter (\<lambda>c. (128 :: int) \<le> of_char c) s))"

section \<open>Paths (\<open>posixpath\<close>)\<close>

definition sep :: char where
  "sep = CHR ''/''"

text \<open>\<open>os.path.basename(p)\<close>: what follows the last separator.\<close>

definition basename :: "string \<Rightarrow> string" where
  "basename p = rev (takeWhile (\<lambda>c. c \<noteq> sep) (rev p))"

text \<open>The rest of \<open>p\<close>, up to and including the last separator (\<open>p[:i]\<close> in \<open>dirname\<close>).\<close>

definition head_part :: "string \<Rightarrow> string" where
  "head_part p = rev (dropWhile (\<lambda>c. c \<noteq> sep) (rev p))"

text \<open>
  \<open>os.path.dirname(p)\<close>: the head, with its trailing separators removed unless it
  consists of separators only.
\<close>

definition dirname :: "string \<Rightarrow> string" where
  "dirname p =
     (let h = head_part p
      in if h \<noteq> [] \<and> (\<exists>c \<in> set h. c \<noteq> sep)
         then rev (dropWhile (\<lambda>c. c = sep) (rev h)) else h)"

text \<open>
  \<open>os.path.splitext(p)\<close>: the extension starts at the last dot of the last component,
  unless only dots (or nothing) precede that dot in the component.
\<close>

definition splitext :: "string \<Rightarrow> string \<times> string" where
  "splitext p =
     (let nm = basename p;
          ext = rev (takeWhile (\<lambda>c. c \<noteq> CHR ''.'') (rev nm));
          stem = take (length nm - length ext - 1) nm
      in if CHR ''.'' \<in> set nm \<and> (\<exists>c \<in> set stem. c \<noteq> CHR ''.'')
         then (head_part p @ stem, CHR ''.'' # ext) else (p, []))"

text \<open>\<open>os.path.join(a, b)\<close>.\<close>

definition join :: "string \<Rightarrow> string \<Rightarrow> string" where
  "join a b =
     (if prefix [sep] b then b
      else if a = [] \<or> endswith a [sep] then a @ b
      else a @ [sep] @ b)"

text \<open>The components of a path: \<open>p.split("/")\<close>.\<close>

fun split_sep :: "string \<Rightarrow> string list" where
  "split_sep [] = [[]]"
| "split_sep (c # cs) =
     (if c = sep then [] # split_sep cs
      else (case split_sep cs of x # xs \<Rightarrow> (c # x) # xs | [] \<Rightarrow> [[c]]))"

section \<open>The disk\<close>

text \<open>
  The state of a POSIX file system without links, as a process sees it: its working
  directory and the entries that exist below the root, each a regular file (with its
  modification time and its text) or a directory, in the order \<open>os.listdir\<close> reports them.
  A location is the list of the names that lead to it from the root; the root itself is
  the empty list and always a directory.
\<close>

datatype node = File nat string | Dir

datatype disk = Disk (cwd: "string list") (entries: "(string list \<times> node) list")

datatype exn =
    FileNotFoundError | NotADirectoryError | IsADirectoryError | OSError
  | ValueError | TypeError | CsvError

definition node_at :: "disk \<Rightarrow> string list \<Rightarrow> node option" where
  "node_at fs q = (if q = [] then Some Dir else map_of (entries fs) q)"

text \<open>The limits of the system on the bytes of a name and of a path.\<close>

definition name_max :: int where
  "name_max = 255"

definition path_max :: int where
  "path_max = 4096"

text \<open>
  Path resolution, one component after the other. A component is looked up in a directory
  only: a missing one raises \<open>FileNotFoundError\<close>, a file in its place
  \<open>NotADirectoryError\<close>, and a name longer than the limit \<open>OSError\<close>. An empty component
  (two separators in a row, or one at the end) and \<open>.\<close> stay where they are, \<open>..\<close> goes up
  (the root is its own parent), a name goes down whether or not it exists there.
\<close>

fun walk :: "disk \<Rightarrow> string list \<Rightarrow> string list \<Rightarrow> exn + string list" where
  "walk fs cur [] = Inr cur"
| "walk fs cur (c # cs) =
     (case node_at fs cur of
        None \<Rightarrow> Inl FileNotFoundError
      | Some (File _ _) \<Rightarrow> Inl NotADirectoryError
      | Some Dir \<Rightarrow>
          if name_max < utf8_len c then Inl OSError
          else if c = [] \<or> c = ''.'' then walk fs cur cs
          else if c = ''..'' then walk fs (butlast cur) cs
          else walk fs (cur @ [c]) cs)"

text \<open>
  The location a path names: an absolute path is resolved from the root, any other from the
  working directory. The empty path names nothing.
\<close>

definition resolve :: "disk \<Rightarrow> string \<Rightarrow> exn + string list" where
  "resolve fs p =
     (if p = [] then Inl FileNotFoundError
      else if path_max \<le> utf8_len p then Inl OSError
      else walk fs (if prefix [sep] p then [] else cwd fs) (split_sep p))"

text \<open>What is at a path, if anything (\<open>os.stat\<close>).\<close>

definition stat :: "disk \<Rightarrow> string \<Rightarrow> node option" where
  "stat fs p = (case resolve fs p of Inl e \<Rightarrow> None | Inr q \<Rightarrow> node_at fs q)"

text \<open>\<open>os.path.exists\<close>, \<open>os.path.isfile\<close>, \<open>os.path.isdir\<close>, \<open>os.path.getmtime\<close>.\<close>

definition path_exists :: "disk \<Rightarrow> string \<Rightarrow> bool" where
  "path_exists fs p = (stat fs p \<noteq> None)"

definition isfile :: "disk \<Rightarrow> string \<Rightarrow> bool" where
  "isfile fs p = (case stat fs p of Some (File _ _) \<Rightarrow> True | _ \<Rightarrow> False)"

definition isdir :: "disk \<Rightarrow> string \<Rightarrow> bool" where
  "isdir fs p = (stat fs p = Some Dir)"

definition getmtime :: "disk \<Rightarrow> string \<Rightarrow> nat" where
  "getmtime fs p = (case stat fs p of Some (File t _) \<Rightarrow> t | _ \<Rightarrow> 0)"

text \<open>The text of a file that is read.\<close>

definition file_text :: "disk \<Rightarrow> string \<Rightarrow> string" where
  "file_text fs p = (case stat fs p of Some (File _ text) \<Rightarrow> text | _ \<Rightarrow> [])"

text \<open>
  \<open>os.listdir(d)\<close>: the names directly inside the directory \<open>d\<close>; it raises when \<open>d\<close> is
  not an existing directory.
\<close>

definition child_name :: "string list \<Rightarrow> string list \<Rightarrow> string option" where
  "child_name q p = (if p \<noteq> [] \<and> butlast p = q then Some (last p) else None)"

definition listdir :: "disk \<Rightarrow> string \<Rightarrow> exn + string list" where
  "listdir fs d =
     (case resolve fs d of
        Inl e \<Rightarrow> Inl e
      | Inr q \<Rightarrow>
          (case node_at fs q of
             None \<Rightarrow> Inl FileNotFoundError
           | Some (File _ _) \<Rightarrow> Inl NotADirectoryError
           | Some Dir \<Rightarrow>
               Inr (remdups (List.map_filter (\<lambda>(p, _). child_name q p) (entries fs)))))"

text \<open>
  \<open>os.rename(src, dst)\<close>. Both paths are resolved, and the source must exist. A file
  replaces an existing file but not a directory; a directory moves with everything below
  it, onto nothing or onto an empty directory, and not into itself.
\<close>

definition below :: "string list \<Rightarrow> string list \<Rightarrow> bool" where
  "below q p = (prefix q p \<and> p \<noteq> q)"

definition os_rename :: "disk \<Rightarrow> string \<Rightarrow> string \<Rightarrow> exn + disk" where
  "os_rename fs src dst =
     (case resolve fs src of
        Inl e \<Rightarrow> Inl e
      | Inr s \<Rightarrow>
          (case node_at fs s of
             None \<Rightarrow> Inl FileNotFoundError
           | Some nd \<Rightarrow>
               (case resolve fs dst of
                  Inl e \<Rightarrow> Inl e
                | Inr d \<Rightarrow>
                    if s = d then Inr fs
                    else if s = [] \<or> d = [] then Inl OSError
                    else if nd \<noteq> Dir \<and> node_at fs d = Some Dir then Inl IsADirectoryError
                    else if nd = Dir \<and> node_at fs d \<noteq> None \<and> node_at fs d \<noteq> Some Dir
                    then Inl NotADirectoryError
                    else if nd = Dir \<and> (below s d \<or> (\<exists>p \<in> fst ` set (entries fs). below d p))
                    then Inl OSError
                    else Inr (Disk (cwd fs)
                           (map (\<lambda>(p, x). if p = s \<or> (nd = Dir \<and> below s p)
                                           then (d @ drop (length s) p, x) else (p, x))
                              (filter (\<lambda>(p, x). p \<noteq> d) (entries fs)))))))"

text \<open>
  \<open>open(path, "w")\<close> followed by the writes: it raises when the path does not resolve or
  names a directory, and otherwise leaves a file holding \<open>text\<close> there.
\<close>

definition write_file :: "nat \<Rightarrow> disk \<Rightarrow> string \<Rightarrow> string \<Rightarrow> exn + disk" where
  "write_file now fs path text =
     (case resolve fs path of
        Inl e \<Rightarrow> Inl e
      | Inr q \<Rightarrow>
          (case node_at fs q of
             Some Dir \<Rightarrow> Inl IsADirectoryError
           | Some (File _ _) \<Rightarrow>
               Inr (Disk (cwd fs)
                      (map (\<lambda>(p, x). if p = q then (p, File now text) else (p, x)) (entries fs)))
           | None \<Rightarrow> Inr (Disk (cwd fs) (entries fs @ [(q, File now text)]))))"


section \<open>\<open>str.format\<close> with the keyword argument \<open>n\<close>\<close>

text \<open>
  \<open>pattern.format(n=n)\<close> for an int \<open>n\<close> either returns a string or raises. The renaming
  code is modelled over any such function \<open>fmt\<close> (\<open>None\<close> when it raises), so that what is
  proved of it holds whatever the library does on a pattern.

  \<open>py_format\<close> computes the library's answer on the patterns below, and says
  \<open>Unmodelled\<close> on the others:
  \<^item> literal text, with \<open>{{\<close> and \<open>}}\<close> for braces; a single \<open>}\<close> and an unclosed \<open>{\<close>
    raise \<open>ValueError\<close>;
  \<^item> a field \<open>{name}\<close> or \<open>{name:spec}\<close>; the name \<open>n\<close> is the argument, an empty or
    numeric name raises \<open>IndexError\<close> (there is no positional argument), another name
    without \<open>.\<close> or \<open>[\<close> raises \<open>KeyError\<close>;
  \<^item> a \<open>spec\<close> that is empty or has the form \<open>[0][width][d]\<close>: sign-aware zero padding
    with the \<open>0\<close>, right alignment with spaces without it.
  Conversions (\<open>!r\<close>), attribute and index access, nested fields and the other format
  specifications are \<open>Unmodelled\<close>.
\<close>

datatype fmt_result = Rendered string | Raised | Unmodelled

definition isdigit_char :: "char \<Rightarrow> bool" where
  "isdigit_char c = (let k = (of_char c :: nat) in 48 \<le> k \<and> k \<le> 57)"

definition format_int :: "string \<Rightarrow> int \<Rightarrow> fmt_result" where
  "format_int spec n =
     (let zero = prefix ''0'' spec;
          r1 = (if zero then drop 1 spec else spec);
          width = takeWhile isdigit_char r1;
          r2 = dropWhile isdigit_char r1
      in if (r2 = [] \<or> r2 = ''d'') \<and> length width \<le> 6
         then Rendered (if zero then zfill (py_str n) (int (digits_val width))
                        else replicate (digits_val width - length (py_str n)) CHR '' '' @ py_str n)
         else Unmodelled)"

definition render_field :: "string \<Rightarrow> string \<Rightarrow> int \<Rightarrow> fmt_result" where
  "render_field name spec n =
     (if name = ''n'' then format_int spec n
      else if CHR ''.'' \<in> set name then Unmodelled
      else Raised)"

datatype fstate = InText | InName string | InSpec string string

fun fmt_run :: "int \<Rightarrow> fstate \<Rightarrow> string \<Rightarrow> string \<Rightarrow> fmt_result" where
  "fmt_run n InText out [] = Rendered out"
| "fmt_run n InText out (c # cs) =
     (if c = CHR ''{'' then
        (case cs of
           [] \<Rightarrow> Raised
         | d # ds \<Rightarrow> if d = CHR ''{'' then fmt_run n InText (out @ [c]) ds
                     else fmt_run n (InName []) out cs)
      else if c = CHR ''}'' then
        (case cs of
           [] \<Rightarrow> Raised
         | d # ds \<Rightarrow> if d = CHR ''}'' then fmt_run n InText (out @ [c]) ds else Raised)
      else fmt_run n InText (out @ [c]) cs)"
| "fmt_run n (InName name) out [] = Raised"
| "fmt_run n (InName name) out (c # cs) =
     (if c = CHR ''{'' then Raised
      else if c = CHR ''['' \<or> c = CHR ''!'' then Unmodelled
      else if c = CHR ''}'' then
        (case render_field name [] n of
           Rendered s \<Rightarrow> fmt_run n InText (out @ s) cs
         | r \<Rightarrow> r)
      else if c = CHR '':'' then fmt_run n (InSpec name []) out cs
      else fmt_run n (InName (name @ [c])) out cs)"
| "fmt_run n (InSpec name spec) out [] = Raised"
| "fmt_run n (InSpec name spec) out (c # cs) =
     (if c = CHR ''{'' then Unmodelled
      else if c = CHR ''}'' then
        (case render_field name spec n of
           Rendered s \<Rightarrow> fmt_run n InText (out @ s) cs
         | r \<Rightarrow> r)
      else fmt_run n (InSpec name (spec @ [c])) out cs)"

definition py_format :: "string \<Rightarrow> int \<Rightarrow> fmt_result" where
  "py_format pattern n = fmt_run n InText [] pattern"

text \<open>\<open>py_format\<close> as an argument for \<open>fmt\<close>; it is only used on modelled patterns.\<close>

definition fmt_py :: "string \<Rightarrow> int \<Rightarrow> string option" where
  "fmt_py pattern n = (case py_format pattern n of Rendered s \<Rightarrow> Some s | _ \<Rightarrow> None)"

section \<open>File Collector: \<open>find_images\<close>\<close>

text \<open>
  \<^verbatim>\<open>
  def natural_key(s):
      return [int(t) if t.isdigit() else t.lower() for t in re.split(r"(\d+)", s)]
  \<close>
  \<open>re.split\<close> yields text, digits, text, ... in turn. A piece that \<open>isdigit\<close> accepts
  but \<open>int\<close> rejects (superscript digits, which \<open>\d\<close> does not match) raises
  \<open>ValueError\<close>.
\<close>

datatype tok = Txt string | Num nat

function split_digits :: "string \<Rightarrow> string list" where
  "split_digits s =
     (let t = takeWhile (\<lambda>c. \<not> isdigit_char c) s;
          r = dropWhile (\<lambda>c. \<not> isdigit_char c) s
      in if r = [] then [t]
         else t # takeWhile isdigit_char r # split_digits (dropWhile isdigit_char r))"
  by pat_completeness auto
termination
proof (relation "measure length")
  fix s :: string and t r :: string
  assume r: "r = dropWhile (\<lambda>c. \<not> isdigit_char c) s" and ne: "r \<noteq> []"
  have "isdigit_char (hd r)"
    using hd_dropWhile[of "\<lambda>c. \<not> isdigit_char c" s] r ne by simp
  then have "length (dropWhile isdigit_char r) < length r"
    using ne by (cases r) (simp_all add: le_imp_less_Suc length_dropWhile_le)
  moreover have "length r \<le> length s"
    unfolding r by (rule length_dropWhile_le)
  ultimately show "(dropWhile isdigit_char r, s) \<in> measure length"
    by simp
qed simp

declare split_digits.simps [simp del]

definition py_isdigit :: "string \<Rightarrow> bool" where
  "py_isdigit t = (t \<noteq> [] \<and> (\<forall>c \<in> set t. isdigit_char c \<or> of_char c \<in> {178, 179, 185 :: nat}))"

definition key_piece :: "string \<Rightarrow> tok option" where
  "key_piece t =
     (if py_isdigit t
      then (if \<forall>c \<in> set t. isdigit_char c then Some (Num (digits_val t)) else None)
      else Some (Txt (lower t)))"

definition natural_key :: "string \<Rightarrow> tok list option" where
  "natural_key s = those (map key_piece (split_digits s))"

fun str_less :: "string \<Rightarrow> string \<Rightarrow> bool" where
  "str_less [] [] = False"
| "str_less [] (y # ys) = True"
| "str_less (x # xs) [] = False"
| "str_less (x # xs) (y # ys) =
     (if x = y then str_less xs ys else (of_char x :: nat) < of_char y)"

fun tok_less :: "tok \<Rightarrow> tok \<Rightarrow> bool" where
  "tok_less (Txt a) (Txt b) = str_less a b"
| "tok_less (Num a) (Num b) = (a < b)"
| "tok_less _ _ = False"

fun key_less :: "tok list \<Rightarrow> tok list \<Rightarrow> bool" where
  "key_less [] [] = False"
| "key_less [] (y # ys) = True"
| "key_less (x # xs) [] = False"
| "key_less (x # xs) (y # ys) = (if x = y then key_less xs ys else tok_less x y)"

text \<open>\<open>list.sort(key=...)\<close> is stable: entries with equal keys keep their order.\<close>

fun insert_by :: "('k \<Rightarrow> 'k \<Rightarrow> bool) \<Rightarrow> 'k \<times> 'a \<Rightarrow> ('k \<times> 'a) list \<Rightarrow> ('k \<times> 'a) list" where
  "insert_by lt x [] = [x]"
| "insert_by lt x (y # ys) = (if lt (fst y) (fst x) then y # insert_by lt x ys else x # y # ys)"

definition sort_by_key :: "('k \<Rightarrow> 'k \<Rightarrow> bool) \<Rightarrow> ('k \<times> 'a) list \<Rightarrow> 'a list" where
  "sort_by_key lt xs = map snd (foldr (insert_by lt) xs [])"

text \<open>
  \<^verbatim>\<open>
  def find_images(directory, exts, sort_by="name"):
      entries = []
      for name in os.listdir(directory):
          full = os.path.join(directory, name)
          if not os.path.isfile(full):
              continue
          low = name.lower()
          for e in exts:
              if low.endswith(e):
                  entries.append(name)
                  break
      if sort_by == "mtime":
          entries.sort(key=lambda n: os.path.getmtime(os.path.join(directory, n)))
      else:
          entries.sort(key=natural_key)
      return entries
  \<close>
\<close>

definition find_images :: "disk \<Rightarrow> string \<Rightarrow> string list \<Rightarrow> string \<Rightarrow> exn + string list" where
  "find_images fs directory exts sort_by =
     (case listdir fs directory of
        Inl e \<Rightarrow> Inl e
      | Inr names \<Rightarrow>
          let entries = filter (\<lambda>name. isfile fs (join directory name)
                                  \<and> (\<exists>e \<in> set exts. endswith (lower name) e)) names
          in if sort_by = ''mtime''
             then Inr (sort_by_key (<) (map (\<lambda>n. (getmtime fs (join directory n), n)) entries))
             else (case those (map natural_key entries) of
                     None \<Rightarrow> Inl ValueError
                   | Some keys \<Rightarrow> Inr (sort_by_key key_less (zip keys entries))))"

section \<open>Collision Resolver: \<open>next_free_name\<close>\<close>

text \<open>
  \<open>rename_images.py\<close> and \<open>gui_rename.py\<close> hold the same function, line for line:
  \<^verbatim>\<open>
  def next_free_name(directory, candidate):
      base, ext = os.path.splitext(candidate)
      path = os.path.join(directory, candidate)
      if not os.path.exists(path):
          return candidate
      i = 1
      while True:
          newname = f"{base}_{i}{ext}"
          if not os.path.exists(os.path.join(directory, newname)):
              return newname
          i += 1
  \<close>
\<close>

definition suffixed :: "string \<Rightarrow> string \<Rightarrow> nat \<Rightarrow> string" where
  "suffixed base ext i = base @ ''_'' @ py_str (int i) @ ext"

text \<open>
  The loop ends: a path that exists has each of its names among the entries of the disk,
  the names probed differ from one another, and the disk has finitely many entries.
\<close>

lemma digit_val: "d < 10 \<Longrightarrow> (of_char (digit_char d) :: nat) = 48 + d"
  by (simp add: digit_char_def)

lemma digits_val_str_nat: "digits_val (str_nat n) = n"
proof (induction n rule: str_nat.induct)
  case (1 n)
  show ?case
  proof (cases "n < 10")
    case True
    then show ?thesis
      by (subst str_nat.simps) (simp add: digits_val_def digit_val)
  next
    case False
    have "digits_val (str_nat n) = 10 * digits_val (str_nat (n div 10)) + (n mod 10)"
      using False by (subst str_nat.simps) (simp add: digits_val_def digit_val)
    with 1 False show ?thesis by simp
  qed
qed

lemma str_nat_inj: "str_nat m = str_nat n \<Longrightarrow> m = n"
  by (metis digits_val_str_nat)

lemma str_nat_digits: "c \<in> set (str_nat w) \<Longrightarrow> isdigit_char c"
proof (induction w rule: str_nat.induct)
  case (1 n)
  show ?case
  proof (cases "n < 10")
    case True
    with 1(2) show ?thesis
      by (subst (asm) str_nat.simps) (simp add: isdigit_char_def digit_val)
  next
    case False
    have "n mod 10 < 10" by simp
    then have "isdigit_char (digit_char (n mod 10))"
      by (simp add: isdigit_char_def digit_val del: mod_less_divisor)
    with 1 False show ?thesis
      by (subst (asm) (2) str_nat.simps) auto
  qed
qed

lemma str_nat_no_sep: "sep \<notin> set (str_nat w)"
  using str_nat_digits[of sep w] by (auto simp: isdigit_char_def sep_def)

lemma split_sep_nonempty: "split_sep s \<noteq> []"
  by (induction s) (auto split: list.splits)

lemma hd_split_sep: "hd (split_sep s) = takeWhile (\<lambda>c. c \<noteq> sep) s"
  by (induction s) (auto simp: split_sep_nonempty split: list.splits)

lemma split_sep_append:
  "split_sep (u @ v)
     = butlast (split_sep u) @ (last (split_sep u) @ hd (split_sep v)) # tl (split_sep v)"
proof (induction u)
  case Nil
  then show ?case using split_sep_nonempty[of v] by simp
next
  case (Cons c u)
  obtain y ys where s: "split_sep u = y # ys"
    using split_sep_nonempty[of u] by (cases "split_sep u") auto
  show ?case
  proof (cases "c = sep")
    case True
    then show ?thesis using Cons s by simp
  next
    case False
    then show ?thesis using Cons s by (cases ys) auto
  qed
qed

lemma walk_from:
  "walk fs k ys = Inr q \<Longrightarrow> node_at fs q \<noteq> None \<Longrightarrow> node_at fs k \<noteq> None"
  by (cases ys) (auto split: option.splits node.splits)

lemma walk_component:
  assumes "walk fs cur (xs @ c # ys) = Inr q" and "node_at fs q \<noteq> None"
    and "c \<noteq> []" and "c \<noteq> ''.''" and "c \<noteq> ''..''"
  shows "\<exists>r. node_at fs (r @ [c]) \<noteq> None"
  using assms(1)
proof (induction xs arbitrary: cur)
  case Nil
  then have "walk fs (cur @ [c]) ys = Inr q"
    using assms(3-5) by (auto split: option.splits node.splits if_splits)
  then show ?case using walk_from assms(2) by blast
next
  case (Cons x xs)
  then obtain cur' where "walk fs cur' (xs @ c # ys) = Inr q"
    by (auto split: option.splits node.splits if_splits)
  then show ?case by (rule Cons.IH)
qed

lemma exists_component:
  assumes "path_exists fs p" and "c \<in> set (split_sep p)"
    and "c \<noteq> []" and "c \<noteq> ''.''" and "c \<noteq> ''..''"
  shows "c \<in> (\<lambda>e. last (fst e)) ` set (entries fs)"
proof -
  obtain q where q: "resolve fs p = Inr q" "node_at fs q \<noteq> None"
    using assms(1) by (auto simp: path_exists_def stat_def split: sum.splits)
  obtain xs ys where "split_sep p = xs @ c # ys"
    using assms(2) by (auto simp: in_set_conv_decomp)
  then obtain cur where "walk fs cur (xs @ c # ys) = Inr q"
    using q(1) by (auto simp: resolve_def split: if_splits)
  then obtain r where "node_at fs (r @ [c]) \<noteq> None"
    using walk_component[OF _ q(2) assms(3-5)] by blast
  then obtain nd where "map_of (entries fs) (r @ [c]) = Some nd"
    by (auto simp: node_at_def)
  then have "(r @ [c], nd) \<in> set (entries fs)"
    by (rule map_of_SomeD)
  then show ?thesis by force
qed

lemma join_append: "\<exists>a. \<forall>j. join d (suffixed base ext j) = a @ ''_'' @ str_nat j @ ext"
proof -
  have p: "prefix [sep] (suffixed base ext j) = prefix [sep] base" for j
    by (cases base) (simp_all add: suffixed_def sep_def)
  show ?thesis
    unfolding join_def p
    by (cases "prefix [sep] base"; cases "d = [] \<or> endswith d [sep]")
      (auto simp: suffixed_def py_str_def intro: exI[of _ "d @ base"] exI[of _ "d @ [sep] @ base"])
qed

lemma occupied_finite:
  "finite {j. i \<le> j \<and> path_exists fs (join d (suffixed base ext j))}"
proof -
  obtain a where a: "\<And>j. join d (suffixed base ext j) = a @ ''_'' @ str_nat j @ ext"
    using join_append by blast
  define g where "g j = last (split_sep a) @ ''_'' @ str_nat j @ takeWhile (\<lambda>c. c \<noteq> sep) ext" for j
  have comp: "g j \<in> set (split_sep (join d (suffixed base ext j)))" for j
  proof -
    define v where "v = ''_'' @ str_nat j @ ext"
    have "takeWhile (\<lambda>c. c \<noteq> sep) (str_nat j @ ext)
        = str_nat j @ takeWhile (\<lambda>c. c \<noteq> sep) ext"
      by (rule takeWhile_append2) (use str_nat_no_sep[of j] in auto)
    then have "takeWhile (\<lambda>c. c \<noteq> sep) v = ''_'' @ str_nat j @ takeWhile (\<lambda>c. c \<noteq> sep) ext"
      by (simp add: v_def sep_def)
    then have "hd (split_sep v) = ''_'' @ str_nat j @ takeWhile (\<lambda>c. c \<noteq> sep) ext"
      by (simp only: hd_split_sep)
    then have "g j = last (split_sep a) @ hd (split_sep v)"
      by (simp only: g_def)
    then have "g j \<in> set (split_sep (a @ v))"
      unfolding split_sep_append[of a v] by simp
    then show ?thesis
      unfolding a v_def .
  qed
  have name: "g j \<noteq> [] \<and> g j \<noteq> ''.'' \<and> g j \<noteq> ''..''" for j
  proof -
    have "CHR ''_'' \<in> set (g j)" by (simp add: g_def)
    then show ?thesis by auto
  qed
  have inj: "inj g"
    by (rule injI) (auto simp: g_def dest: str_nat_inj)
  have "{j. i \<le> j \<and> path_exists fs (join d (suffixed base ext j))}
      \<subseteq> g -` ((\<lambda>e. last (fst e)) ` set (entries fs))"
    using exists_component[OF _ comp] name by auto
  moreover have "finite (g -` ((\<lambda>e. last (fst e)) ` set (entries fs)))"
    using inj by (intro finite_vimageI) auto
  ultimately show ?thesis by (rule finite_subset)
qed

function probe :: "disk \<Rightarrow> string \<Rightarrow> string \<Rightarrow> string \<Rightarrow> nat \<Rightarrow> string" where
  "probe fs directory base ext i =
     (if \<not> path_exists fs (join directory (suffixed base ext i)) then suffixed base ext i
      else probe fs directory base ext (i + 1))"
  by pat_completeness auto

termination probe
proof (relation "measure (\<lambda>(fs, directory, base, ext, i).
         card {j. i \<le> j \<and> path_exists fs (join directory (suffixed base ext j))})")
  show "wf (measure (\<lambda>(fs, directory, base, ext, i).
         card {j. i \<le> j \<and> path_exists fs (join directory (suffixed base ext j))}))"
    by simp
next
  fix fs :: disk and directory base ext :: string and i :: nat
  assume occ: "\<not> \<not> path_exists fs (join directory (suffixed base ext i))"
  let ?S = "\<lambda>k. {j. k \<le> j \<and> path_exists fs (join directory (suffixed base ext j))}"
  have "?S (i + 1) \<subset> ?S i"
    using occ by (auto simp: Suc_le_eq)
  then have "card (?S (i + 1)) < card (?S i)"
    by (intro psubset_card_mono occupied_finite)
  then show "((fs, directory, base, ext, i + 1), (fs, directory, base, ext, i))
      \<in> measure (\<lambda>(fs, directory, base, ext, i).
         card {j. i \<le> j \<and> path_exists fs (join directory (suffixed base ext j))})"
    by simp
qed

declare probe.simps [simp del]

definition next_free_name :: "disk \<Rightarrow> string \<Rightarrow> string \<Rightarrow> string" where
  "next_free_name fs directory candidate =
     (let (base, ext) = splitext candidate
      in if \<not> path_exists fs (join directory candidate) then candidate
         else probe fs directory base ext 1)"

section \<open>Mapping Codec: writing\<close>

text \<open>
  \<open>csv.writer(f).writerow(fields)\<close> in the default dialect: a field holding a comma, a
  double quote, a carriage return or a line feed is put between double quotes, with every
  double quote of the field doubled; fields are joined by commas; a row made of one empty
  field is written as two double quotes; the row ends with carriage return and line feed.
\<close>

definition CR :: char where
  "CR = CHR 0x0D"

definition LF :: char where
  "LF = CHR 0x0A"

definition csv_special :: "char \<Rightarrow> bool" where
  "csv_special c = (c = CHR '','' \<or> c = CHR 0x22 \<or> c = CR \<or> c = LF)"

definition csv_escape :: "string \<Rightarrow> string" where
  "csv_escape f = concat (map (\<lambda>c. if c = CHR 0x22 then [c, c] else [c]) f)"

definition csv_field :: "string \<Rightarrow> string" where
  "csv_field f = (if \<exists>c \<in> set f. csv_special c then [CHR 0x22] @ csv_escape f @ [CHR 0x22] else f)"

fun csv_join :: "string list \<Rightarrow> string" where
  "csv_join [] = []"
| "csv_join [f] = csv_field f"
| "csv_join (f # g # fs) = csv_field f @ '','' @ csv_join (g # fs)"

definition writerow :: "string list \<Rightarrow> string" where
  "writerow fields = (if fields = [[]] then [CHR 0x22, CHR 0x22] else csv_join fields) @ [CR, LF]"

type_synonym plan = "(string \<times> string) list"

text \<open>
  What \<open>rename_sequence\<close> and the GUI's \<open>export_csv\<close> write: the header, then one row of
  basenames for each action.
\<close>

definition csv_export :: "plan \<Rightarrow> string" where
  "csv_export results =
     writerow [''name_raw'', ''name_change'']
     @ concat (map (\<lambda>(src, dst). writerow [basename src, basename dst]) results)"

section \<open>Plan Builder and Executor of the command line: \<open>rename_sequence\<close>\<close>

text \<open>What the functions print, one value for each \<open>print\<close> call.\<close>

datatype msg =
    DryRun string string
  | Renaming string string
  | MappingWritten string
  | MappingWarning string exn
  | CsvNotFound string
  | BadHeader
  | SkipInvalidRow
  | SourceNotFound string
  | RenameFailed string string exn

text \<open>An optional string argument that counts as given (\<open>if pattern:\<close>, \<open>if map_csv:\<close>).\<close>

definition given :: "string option \<Rightarrow> string option" where
  "given a = (case a of Some s \<Rightarrow> if s = [] then None else Some s | None \<Rightarrow> None)"

text \<open>\<open>f"{prefix}{separator}{number}" if prefix else number\<close>\<close>

definition numbered :: "string \<Rightarrow> string \<Rightarrow> string \<Rightarrow> string" where
  "numbered prefix' separator number = (if prefix' \<noteq> [] then prefix' @ separator @ number else number)"

text \<open>
  The body of the planning loop, up to the collision check:
  \<^verbatim>\<open>
  _, ext = os.path.splitext(fname)
  number = str(n).zfill(padding)
  if pattern:
      try:
          rendered = pattern.format(n=n)
      except Exception as e:
          rendered = f"{prefix}{separator}{number}" if prefix else number
      base_part, pat_ext = os.path.splitext(rendered)
      if pat_ext:
          newname = rendered
      else:
          newname = rendered + ext
  else:
      newbase = f"{prefix}{separator}{number}" if prefix else number
      newname = newbase + ext
  \<close>
\<close>

definition seq_newname ::
  "(string \<Rightarrow> int \<Rightarrow> string option) \<Rightarrow> string \<Rightarrow> int \<Rightarrow> string \<Rightarrow> string option
     \<Rightarrow> string \<Rightarrow> int \<Rightarrow> string" where
  "seq_newname fmt prefix' padding separator pattern fname n =
     (let ext = snd (splitext fname);
          number = zfill (py_str n) padding
      in case given pattern of
           Some pat \<Rightarrow>
             let rendered = (case fmt pat n of
                               Some r \<Rightarrow> r
                             | None \<Rightarrow> numbered prefix' separator number)
             in if snd (splitext rendered) \<noteq> [] then rendered else rendered @ ext
         | None \<Rightarrow> numbered prefix' separator number @ ext)"

text \<open>
  The planning loop:
  \<^verbatim>\<open>
  n = start
  for fname in files:
      ...
      newname = next_free_name(directory, newname)
      src = os.path.join(directory, fname)
      dst = os.path.join(directory, newname)
      results.append((src, dst))
      n += 1
  \<close>
\<close>

fun seq_plan ::
  "(string \<Rightarrow> int \<Rightarrow> string option) \<Rightarrow> disk \<Rightarrow> string \<Rightarrow> string \<Rightarrow> int \<Rightarrow> string
     \<Rightarrow> string option \<Rightarrow> string list \<Rightarrow> int \<Rightarrow> plan" where
  "seq_plan fmt fs directory prefix' padding separator pattern [] n = []"
| "seq_plan fmt fs directory prefix' padding separator pattern (fname # files) n =
     (join directory fname,
      join directory
        (next_free_name fs directory (seq_newname fmt prefix' padding separator pattern fname n)))
     # seq_plan fmt fs directory prefix' padding separator pattern files (n + 1)"

text \<open>
  The renaming loop; an exception of \<open>os.rename\<close> is not caught here and ends the loop:
  \<^verbatim>\<open>
  for src, dst in results:
      if dry_run:
          print(f"DRY-RUN: {os.path.basename(src)} -> {os.path.basename(dst)}")
      else:
          print(f"Renaming: {os.path.basename(src)} -> {os.path.basename(dst)}")
          os.rename(src, dst)
  \<close>
\<close>

fun seq_perform :: "disk \<Rightarrow> bool \<Rightarrow> plan \<Rightarrow> disk \<times> msg list \<times> exn option" where
  "seq_perform fs dry_run [] = (fs, [], None)"
| "seq_perform fs dry_run ((src, dst) # rest) =
     (if dry_run then
        (case seq_perform fs dry_run rest of
           (fs', out, e) \<Rightarrow> (fs', DryRun (basename src) (basename dst) # out, e))
      else
        (case os_rename fs src dst of
           Inl e \<Rightarrow> (fs, [Renaming (basename src) (basename dst)], Some e)
         | Inr fs1 \<Rightarrow>
             (case seq_perform fs1 dry_run rest of
                (fs', out, e) \<Rightarrow> (fs', Renaming (basename src) (basename dst) # out, e))))"

text \<open>
  The export, which does not look at \<open>dry_run\<close>:
  \<^verbatim>\<open>
  if map_csv:
      try:
          with open(map_csv, "w", newline="", encoding="utf-8") as f:
              writer = csv.writer(f)
              writer.writerow(["name_raw", "name_change"])
              for src, dst in results:
                  writer.writerow([os.path.basename(src), os.path.basename(dst)])
          print(f"Mapping written to: {map_csv}")
      except Exception as e:
          print(f"Warning: failed to write mapping file {map_csv}: {e}")
  \<close>
\<close>

definition seq_export :: "nat \<Rightarrow> disk \<Rightarrow> string option \<Rightarrow> plan \<Rightarrow> disk \<times> msg list" where
  "seq_export now fs map_csv results =
     (case given map_csv of
        None \<Rightarrow> (fs, [])
      | Some path \<Rightarrow>
          (case write_file now fs path (csv_export results) of
             Inl e \<Rightarrow> (fs, [MappingWarning path e])
           | Inr fs' \<Rightarrow> (fs', [MappingWritten path])))"

text \<open>
  \<open>rename_sequence\<close>: the disk it leaves, what it prints, and the list it returns or the
  exception it ends with. \<open>now\<close> is the time a file written by the call gets.
\<close>

definition rename_sequence ::
  "(string \<Rightarrow> int \<Rightarrow> string option) \<Rightarrow> nat \<Rightarrow> disk \<Rightarrow> string \<Rightarrow> string \<Rightarrow> int \<Rightarrow> int
     \<Rightarrow> string list \<Rightarrow> bool \<Rightarrow> string \<Rightarrow> string \<Rightarrow> string option \<Rightarrow> string option
     \<Rightarrow> disk \<times> msg list \<times> (exn + plan)" where
  "rename_sequence fmt now fs directory prefix' start padding exts dry_run sort_by separator
       pattern map_csv =
     (case find_images fs directory exts sort_by of
        Inl e \<Rightarrow> (fs, [], Inl e)
      | Inr files \<Rightarrow>
          let results = seq_plan fmt fs directory prefix' padding separator pattern files start
          in case seq_perform fs dry_run results of
               (fs1, out1, Some e) \<Rightarrow> (fs1, out1, Inl e)
             | (fs1, out1, None) \<Rightarrow>
                 (case seq_export now fs1 map_csv results of
                    (fs2, out2) \<Rightarrow> (fs2, out1 @ out2, Inr results)))"

section \<open>Name Renderer, Plan Builder and Executor of the GUI\<close>

text \<open>
  \<^verbatim>\<open>
  def render_name(pattern, n, src_ext):
      name = pattern
      if "{n" in pattern:
          try:
              name = pattern.format(n=n)
          except Exception:
              name = pattern.replace("-n", str(n))
      elif "-n" in pattern:
          name = pattern.replace("-n", str(n))
      else:
          name = f"{pattern}{n}"
      base, ext = os.path.splitext(name)
      if not ext:
          name = name + src_ext
      return name
  \<close>
\<close>

definition render_name ::
  "(string \<Rightarrow> int \<Rightarrow> string option) \<Rightarrow> string \<Rightarrow> int \<Rightarrow> string \<Rightarrow> string" where
  "render_name fmt pattern n src_ext =
     (let name = (if contains ''{n'' pattern then
                    (case fmt pattern n of
                       Some r \<Rightarrow> r
                     | None \<Rightarrow> replace_token (py_str n) pattern)
                  else if contains ''-n'' pattern then replace_token (py_str n) pattern
                  else pattern @ py_str n)
      in if snd (splitext name) = [] then name @ src_ext else name)"

text \<open>
  The loop of \<open>GuiRenamer._build_actions\<close> over \<open>self.files\<close>:
  \<^verbatim>\<open>
  for src in self.files:
      _, ext = os.path.splitext(src)
      if "-n" in pattern and padding:
          num = str(n).zfill(padding)
          target_base = pattern.replace("-n", num)
          name = target_base
      else:
          name = render_name(pattern, n, ext)
      base, ext2 = os.path.splitext(name)
      if not ext2:
          name = name + ext
      name = next_free_name(os.path.dirname(src), name)
      dst = os.path.join(os.path.dirname(src), name)
      actions.append((src, dst))
      n += 1
  \<close>
\<close>

definition gui_newname ::
  "(string \<Rightarrow> int \<Rightarrow> string option) \<Rightarrow> string \<Rightarrow> int \<Rightarrow> string \<Rightarrow> int \<Rightarrow> string" where
  "gui_newname fmt pattern padding src n =
     (let ext = snd (splitext src);
          name = (if contains ''-n'' pattern \<and> padding \<noteq> 0
                  then replace_token (zfill (py_str n) padding) pattern
                  else render_name fmt pattern n ext)
      in if snd (splitext name) = [] then name @ ext else name)"

fun gui_plan ::
  "(string \<Rightarrow> int \<Rightarrow> string option) \<Rightarrow> disk \<Rightarrow> string \<Rightarrow> int \<Rightarrow> string list \<Rightarrow> int \<Rightarrow> plan" where
  "gui_plan fmt fs pattern padding [] n = []"
| "gui_plan fmt fs pattern padding (src # files) n =
     (src, join (dirname src) (next_free_name fs (dirname src) (gui_newname fmt pattern padding src n)))
     # gui_plan fmt fs pattern padding files (n + 1)"

text \<open>
  \<open>_build_actions\<close>: \<open>files\<close> is \<open>self.files\<close>, \<open>pattern_var\<close>, \<open>start\<close> and \<open>padding\<close> are
  the values of the three entry fields.
\<close>

definition build_actions ::
  "(string \<Rightarrow> int \<Rightarrow> string option) \<Rightarrow> disk \<Rightarrow> string list \<Rightarrow> string \<Rightarrow> int \<Rightarrow> int \<Rightarrow> plan" where
  "build_actions fmt fs files pattern_var start padding =
     gui_plan fmt fs (strip pattern_var) padding files start"

text \<open>
  The renaming loop of \<open>GuiRenamer.rename\<close>, which catches the exception of each action:
  \<^verbatim>\<open>
  failed = []
  for src, dst in actions:
      try:
          os.rename(src, dst)
      except Exception as e:
          failed.append((src, dst, str(e)))
  \<close>
\<close>

fun gui_perform :: "disk \<Rightarrow> plan \<Rightarrow> disk \<times> (string \<times> string \<times> exn) list" where
  "gui_perform fs [] = (fs, [])"
| "gui_perform fs ((src, dst) # rest) =
     (case os_rename fs src dst of
        Inl e \<Rightarrow> (case gui_perform fs rest of (fs', failed) \<Rightarrow> (fs', (src, dst, e) # failed))
      | Inr fs1 \<Rightarrow> gui_perform fs1 rest)"

section \<open>Mapping Codec: reading\<close>

text \<open>
  \<open>csv.reader\<close> in the default dialect, over a file opened with \<open>newline=""\<close>. The
  reader is the state machine of the \<open>_csv\<close> module (\<open>parse_process_char\<close>); the states of
  the escape character, which the dialect does not set, are left out. \<open>None\<close> is the end of
  line mark the reader feeds after each line. A field longer than the field limit raises
  \<open>_csv.Error\<close>, as does any character but a line break in \<open>EAT_CRNL\<close>.
\<close>

datatype pstate =
    START_RECORD | START_FIELD | IN_FIELD | IN_QUOTED_FIELD | QUOTE_IN_QUOTED_FIELD | EAT_CRNL

text \<open>The parser: its state, the field being read, the fields read so far.\<close>

type_synonym parser = "pstate \<times> string \<times> string list"

definition field_limit :: int where
  "field_limit = 131072"

definition DQUOTE :: char where
  "DQUOTE = CHR 0x22"

definition add_char :: "pstate \<Rightarrow> string \<Rightarrow> string list \<Rightarrow> char \<Rightarrow> exn + parser" where
  "add_char st fld flds c =
     (if field_limit \<le> int (length fld) then Inl CsvError else Inr (st, fld @ [c], flds))"

definition save_field :: "pstate \<Rightarrow> string \<Rightarrow> string list \<Rightarrow> exn + parser" where
  "save_field st fld flds = Inr (st, [], flds @ [fld])"

fun start_field :: "string \<Rightarrow> string list \<Rightarrow> char option \<Rightarrow> exn + parser" where
  "start_field fld flds None = save_field START_RECORD fld flds"
| "start_field fld flds (Some c) =
     (if c = LF \<or> c = CR then save_field EAT_CRNL fld flds
      else if c = DQUOTE then Inr (IN_QUOTED_FIELD, fld, flds)
      else if c = CHR '','' then save_field START_FIELD fld flds
      else add_char IN_FIELD fld flds c)"

fun process_char :: "parser \<Rightarrow> char option \<Rightarrow> exn + parser" where
  "process_char (START_RECORD, fld, flds) None = Inr (START_RECORD, fld, flds)"
| "process_char (START_RECORD, fld, flds) (Some c) =
     (if c = LF \<or> c = CR then Inr (EAT_CRNL, fld, flds)
      else start_field fld flds (Some c))"
| "process_char (START_FIELD, fld, flds) c = start_field fld flds c"
| "process_char (IN_FIELD, fld, flds) None = save_field START_RECORD fld flds"
| "process_char (IN_FIELD, fld, flds) (Some c) =
     (if c = LF \<or> c = CR then save_field EAT_CRNL fld flds
      else if c = CHR '','' then save_field START_FIELD fld flds
      else add_char IN_FIELD fld flds c)"
| "process_char (IN_QUOTED_FIELD, fld, flds) None = Inr (IN_QUOTED_FIELD, fld, flds)"
| "process_char (IN_QUOTED_FIELD, fld, flds) (Some c) =
     (if c = DQUOTE then Inr (QUOTE_IN_QUOTED_FIELD, fld, flds)
      else add_char IN_QUOTED_FIELD fld flds c)"
| "process_char (QUOTE_IN_QUOTED_FIELD, fld, flds) None = save_field START_RECORD fld flds"
| "process_char (QUOTE_IN_QUOTED_FIELD, fld, flds) (Some c) =
     (if c = DQUOTE then add_char IN_QUOTED_FIELD fld flds c
      else if c = CHR '','' then save_field START_FIELD fld flds
      else if c = LF \<or> c = CR then save_field EAT_CRNL fld flds
      else add_char IN_FIELD fld flds c)"
| "process_char (EAT_CRNL, fld, flds) None = Inr (START_RECORD, fld, flds)"
| "process_char (EAT_CRNL, fld, flds) (Some c) =
     (if c = LF \<or> c = CR then Inr (EAT_CRNL, fld, flds) else Inl CsvError)"

text \<open>
  A line of the file ends after a line feed, after a carriage return that no line feed
  follows, and at the end of the text.
\<close>

definition line_ends :: "char \<Rightarrow> string \<Rightarrow> bool" where
  "line_ends c cs = (c = LF \<or> (c = CR \<and> \<not> prefix [LF] cs) \<or> cs = [])"

text \<open>
  The records the reader yields from the rest of the text, and the exception that ends the
  iteration if one is raised. Each character of a line is fed to the parser, then the end
  of line mark; a record is complete when the parser is back in \<open>START_RECORD\<close>, and the
  parser is reset for the next one. At the end of the text an open quoted field closes the
  last record.
\<close>

fun reader_loop :: "parser \<Rightarrow> string \<Rightarrow> string list list \<times> exn option" where
  "reader_loop (st, fld, flds) [] =
     (if fld \<noteq> [] \<or> st = IN_QUOTED_FIELD then ([flds @ [fld]], None) else ([], None))"
| "reader_loop p (c # cs) =
     (case process_char p (Some c) of
        Inl e \<Rightarrow> ([], Some e)
      | Inr p1 \<Rightarrow>
          if line_ends c cs then
            (case process_char p1 None of
               Inl e \<Rightarrow> ([], Some e)
             | Inr (st, fld, flds) \<Rightarrow>
                 if st = START_RECORD
                 then (case reader_loop (START_RECORD, [], []) cs of
                         (rows, err) \<Rightarrow> (flds # rows, err))
                 else reader_loop (st, fld, flds) cs)
          else reader_loop p1 cs)"

definition csv_reader :: "string \<Rightarrow> string list list \<times> exn option" where
  "csv_reader text = reader_loop (START_RECORD, [], []) text"

text \<open>
  \<open>row.get(key) or ''\<close> for a row of \<open>csv.DictReader\<close>: the row is
  \<open>dict(zip(fieldnames, row))\<close>, so the last column of that name counts, and a column the
  row is too short for holds \<open>None\<close>.
\<close>

definition row_get :: "string list \<Rightarrow> string list \<Rightarrow> string \<Rightarrow> string" where
  "row_get fieldnames row key =
     (if key \<in> set (drop (length row) fieldnames) then []
      else (case map_of (rev (zip fieldnames row)) key of Some v \<Rightarrow> v | None \<Rightarrow> []))"

section \<open>Mapping import: \<open>apply_csv_mapping\<close>\<close>

text \<open>
  The convenience of the import: the first name in the directory that matches without
  regard to case.
  \<^verbatim>\<open>
  found = None
  for name in os.listdir(directory):
      if name.lower() == raw.lower():
          found = os.path.join(directory, name)
          break
  \<close>
\<close>

definition find_nocase :: "string \<Rightarrow> string \<Rightarrow> string list \<Rightarrow> string option" where
  "find_nocase directory raw names =
     (case filter (\<lambda>name. lower name = lower raw) names of
        [] \<Rightarrow> None
      | name # _ \<Rightarrow> Some (join directory name))"

text \<open>
  The loop over the rows (\<open>DictReader\<close> has dropped the empty ones):
  \<^verbatim>\<open>
  for row in reader:
      raw = (row.get('name_raw') or '').strip()
      want = (row.get('name_change') or '').strip()
      if not raw or not want:
          print(f"Skipping invalid row: {row}")
          continue
      src = os.path.join(directory, raw)
      if not os.path.exists(src):
          ...
          if found:
              src = found
          else:
              print(f"Source not found for mapping: {raw}")
              continue
      base, ext = os.path.splitext(want)
      if not ext:
          _, src_ext = os.path.splitext(src)
          dst_name = base + src_ext
      else:
          dst_name = want
      dst_name = next_free_name(directory, dst_name)
      dst = os.path.join(directory, dst_name)
      actions.append((src, dst))
  \<close>
\<close>

definition map_action :: "disk \<Rightarrow> string \<Rightarrow> string \<Rightarrow> string \<Rightarrow> string \<times> string" where
  "map_action fs directory src want =
     (let (base, ext) = splitext want;
          dst_name = (if ext = [] then base @ snd (splitext src) else want)
      in (src, join directory (next_free_name fs directory dst_name)))"

fun map_rows ::
  "disk \<Rightarrow> string \<Rightarrow> string list \<Rightarrow> string list list \<Rightarrow> msg list \<times> plan \<times> exn option" where
  "map_rows fs directory fieldnames [] = ([], [], None)"
| "map_rows fs directory fieldnames (row # rows) =
     (let raw = strip (row_get fieldnames row ''name_raw'');
          want = strip (row_get fieldnames row ''name_change'')
      in if raw = [] \<or> want = [] then
           (case map_rows fs directory fieldnames rows of
              (out, actions, e) \<Rightarrow> (SkipInvalidRow # out, actions, e))
         else if path_exists fs (join directory raw) then
           (case map_rows fs directory fieldnames rows of
              (out, actions, e) \<Rightarrow> (out, map_action fs directory (join directory raw) want # actions, e))
         else
           (case listdir fs directory of
              Inl e \<Rightarrow> ([], [], Some e)
            | Inr names \<Rightarrow>
                (case find_nocase directory raw names of
                   Some found \<Rightarrow>
                     (case map_rows fs directory fieldnames rows of
                        (out, actions, e) \<Rightarrow> (out, map_action fs directory found want # actions, e))
                 | None \<Rightarrow>
                     (case map_rows fs directory fieldnames rows of
                        (out, actions, e) \<Rightarrow> (SourceNotFound raw # out, actions, e)))))"

text \<open>
  The renaming loop of the import, which catches the exception of each action:
  \<^verbatim>\<open>
  for src, dst in actions:
      if dry_run:
          print(f"DRY-RUN: {os.path.basename(src)} -> {os.path.basename(dst)}")
      else:
          print(f"Renaming: {os.path.basename(src)} -> {os.path.basename(dst)}")
          try:
              os.rename(src, dst)
          except Exception as e:
              print(f"Failed to rename {src} -> {dst}: {e}")
  \<close>
\<close>

fun map_perform :: "disk \<Rightarrow> bool \<Rightarrow> plan \<Rightarrow> disk \<times> msg list" where
  "map_perform fs dry_run [] = (fs, [])"
| "map_perform fs dry_run ((src, dst) # rest) =
     (if dry_run then
        (case map_perform fs dry_run rest of
           (fs', out) \<Rightarrow> (fs', DryRun (basename src) (basename dst) # out))
      else
        (case os_rename fs src dst of
           Inl e \<Rightarrow>
             (case map_perform fs dry_run rest of
                (fs', out) \<Rightarrow>
                  (fs', Renaming (basename src) (basename dst) # RenameFailed src dst e # out))
         | Inr fs1 \<Rightarrow>
             (case map_perform fs1 dry_run rest of
                (fs', out) \<Rightarrow> (fs', Renaming (basename src) (basename dst) # out))))"

text \<open>
  \<open>apply_csv_mapping\<close>: the disk it leaves, what it prints, and the list it returns or the
  exception it ends with. \<open>reader.fieldnames\<close> is the first record, and \<open>None\<close> for a file
  without one, on which the test \<open>'name_raw' not in reader.fieldnames\<close> raises
  \<open>TypeError\<close>.
  \<^verbatim>\<open>
  actions = []
  if not os.path.isfile(csv_path):
      print(f"Mapping CSV not found: {csv_path}")
      return actions
  with open(csv_path, newline="", encoding="utf-8") as f:
      reader = csv.DictReader(f)
      if 'name_raw' not in reader.fieldnames or 'name_change' not in reader.fieldnames:
          print("CSV must contain headers: name_raw,name_change")
          return actions
      for row in reader:
          ...
  for src, dst in actions:
      ...
  return actions
  \<close>
\<close>

definition apply_csv_mapping ::
  "disk \<Rightarrow> string \<Rightarrow> string \<Rightarrow> bool \<Rightarrow> disk \<times> msg list \<times> (exn + plan)" where
  "apply_csv_mapping fs directory csv_path dry_run =
     (if \<not> isfile fs csv_path then (fs, [CsvNotFound csv_path], Inr [])
      else
        (case csv_reader (file_text fs csv_path) of
           ([], err) \<Rightarrow> (fs, [], Inl (case err of Some e \<Rightarrow> e | None \<Rightarrow> TypeError))
         | (fieldnames # rows, err) \<Rightarrow>
             if ''name_raw'' \<notin> set fieldnames \<or> ''name_change'' \<notin> set fieldnames
             then (fs, [BadHeader], Inr [])
             else
               (case map_rows fs directory fieldnames (filter (\<lambda>row. row \<noteq> []) rows) of
                  (out, actions, Some e) \<Rightarrow> (fs, out, Inl e)
                | (out, actions, None) \<Rightarrow>
                    (case err of
                       Some e \<Rightarrow> (fs, out, Inl e)
                     | None \<Rightarrow>
                         (case map_perform fs dry_run actions of
                            (fs', out') \<Rightarrow> (fs', out @ out', Inr actions))))))"

section \<open>Example disks\<close>

text \<open>
  Example disks, with the working directory \<open>/d\<close>, and the default of \<open>--exts\<close> after
  \<open>parse_ext_list\<close>.
\<close>

definition disk_ab :: disk where
  "disk_ab = Disk [''d'']
     [([''d''], Dir), ([''d'', ''a.png''], File 0 ''A''), ([''d'', ''b.png''], File 0 ''B'')]"

definition image_exts :: "string list" where
  "image_exts = [''.jpg'', ''.jpeg'', ''.png'', ''.gif'', ''.webp'', ''.bmp'']"

definition disk_sub :: disk where
  "disk_sub = Disk [''d'']
     [([''d''], Dir), ([''d'', ''2''], Dir),
      ([''d'', ''a.png''], File 0 ''A''), ([''d'', ''b.png''], File 0 ''B'')]"

definition disk_taken :: disk where
  "disk_taken = Disk [''d'']
     [([''d''], Dir), ([''d'', ''out.png''], File 0 []), ([''d'', ''out_1.png''], File 0 [])]"


definition disk_bad_header :: disk where
  "disk_bad_header = Disk [''d'']
     [([''d''], Dir), ([''d'', ''foo.png''], File 0 []),
      ([''m.csv''], File 0 (writerow [''name'', ''name_change''] @ writerow [''foo.png'', ''bar'']))]"

definition disk_empty_mapping :: disk where
  "disk_empty_mapping = Disk [''d'']
     [([''d''], Dir), ([''d'', ''foo.png''], File 0 []), ([''m.csv''], File 0 [])]"

section \<open>The contract of the Collision Resolver\<close>

lemma probe_least:
  "\<exists>i\<ge>k. probe fs directory base ext k = suffixed base ext i
       \<and> \<not> path_exists fs (join directory (suffixed base ext i))
       \<and> (\<forall>j. k \<le> j \<and> j < i \<longrightarrow> path_exists fs (join directory (suffixed base ext j)))"
proof (induction fs directory base ext k rule: probe.induct)
  case (1 fs directory base ext i)
  show ?case
  proof (cases "path_exists fs (join directory (suffixed base ext i))")
    case False
    then have "probe fs directory base ext i = suffixed base ext i"
      by (subst probe.simps) simp
    with False show ?thesis by (intro exI[of _ i]) auto
  next
    case True
    then obtain m where m: "i + 1 \<le> m"
        "probe fs directory base ext (i + 1) = suffixed base ext m"
        "\<not> path_exists fs (join directory (suffixed base ext m))"
        "\<forall>j. i + 1 \<le> j \<and> j < m \<longrightarrow> path_exists fs (join directory (suffixed base ext j))"
      using 1 by blast
    have "probe fs directory base ext i = suffixed base ext m"
      using True m(2) by (subst probe.simps) simp
    moreover have "path_exists fs (join directory (suffixed base ext j))"
      if "i \<le> j" "j < m" for j
      using that True m(4) by (cases "j = i") auto
    ultimately show ?thesis
      using m(1,3) by (intro exI[of _ m]) auto
  qed
qed

lemma next_free_name_free:
  "\<not> path_exists fs (join directory (next_free_name fs directory candidate))"
proof -
  obtain base ext where be: "splitext candidate = (base, ext)"
    by (cases "splitext candidate")
  show ?thesis
    using probe_least[of 1 fs directory base ext] by (auto simp: next_free_name_def be)
qed


text \<open>
  C7. Collision Resolver contract. A candidate whose path does not exist is returned
  unchanged; otherwise the result is \<open>stem + "_" + i + extension\<close> for the least
  \<open>i \<ge> 1\<close> whose path does not exist (so every smaller suffix is taken). The path of
  the result never exists, and resolving the result again returns it unchanged.
\<close>

theorem next_free_name_contract:
  "(\<not> path_exists fs (join directory candidate) \<longrightarrow>
      next_free_name fs directory candidate = candidate)
   \<and> (path_exists fs (join directory candidate) \<longrightarrow>
        (\<exists>i\<ge>1. next_free_name fs directory candidate
                 = fst (splitext candidate) @ ''_'' @ py_str (int i) @ snd (splitext candidate)
             \<and> \<not> path_exists fs (join directory
                    (fst (splitext candidate) @ ''_'' @ py_str (int i) @ snd (splitext candidate)))
             \<and> (\<forall>j. 1 \<le> j \<and> j < i \<longrightarrow>
                    path_exists fs (join directory
                      (fst (splitext candidate) @ ''_'' @ py_str (int j) @ snd (splitext candidate))))))
   \<and> \<not> path_exists fs (join directory (next_free_name fs directory candidate))
   \<and> next_free_name fs directory (next_free_name fs directory candidate)
       = next_free_name fs directory candidate"
proof -
  obtain base ext where be: "splitext candidate = (base, ext)"
    by (cases "splitext candidate")
  obtain i where i: "1 \<le> i" "probe fs directory base ext 1 = suffixed base ext i"
      "\<not> path_exists fs (join directory (suffixed base ext i))"
      "\<forall>j. 1 \<le> j \<and> j < i \<longrightarrow> path_exists fs (join directory (suffixed base ext j))"
    using probe_least[of 1 fs directory base ext] by blast
  have free: "\<not> path_exists fs (join directory (next_free_name fs directory candidate))"
    using i(2,3) by (simp add: next_free_name_def be)
  have idem: "next_free_name fs directory (next_free_name fs directory candidate)
      = next_free_name fs directory candidate"
    using free by (simp add: next_free_name_def[of fs directory "next_free_name fs directory candidate"]
        split: prod.splits)
  show ?thesis
  proof (intro conjI impI)
    assume "path_exists fs (join directory candidate)"
    then have "next_free_name fs directory candidate = suffixed base ext i"
      using i(2) by (simp add: next_free_name_def be)
    with i(1,3,4) show "\<exists>i\<ge>1. next_free_name fs directory candidate
                 = fst (splitext candidate) @ ''_'' @ py_str (int i) @ snd (splitext candidate)
             \<and> \<not> path_exists fs (join directory
                    (fst (splitext candidate) @ ''_'' @ py_str (int i) @ snd (splitext candidate)))
             \<and> (\<forall>j. 1 \<le> j \<and> j < i \<longrightarrow>
                    path_exists fs (join directory
                      (fst (splitext candidate) @ ''_'' @ py_str (int j) @ snd (splitext candidate))))"
      unfolding be suffixed_def fst_conv snd_conv by (intro exI[of _ i]) simp
  next
    assume "\<not> path_exists fs (join directory candidate)"
    then show "next_free_name fs directory candidate = candidate"
      by (simp add: next_free_name_def be)
  next
    show "\<not> path_exists fs (join directory (next_free_name fs directory candidate))"
      by (rule free)
  next
    show "next_free_name fs directory (next_free_name fs directory candidate)
        = next_free_name fs directory candidate"
      by (rule idem)
  qed
qed

text \<open>
  Witness for C7: \<open>out.png\<close> and \<open>out_1.png\<close> exist, so \<open>out.png\<close> resolves to
  \<open>out_2.png\<close>, and \<open>./out.png\<close>, which names the same file, to \<open>./out_2.png\<close>; the
  free name \<open>new.png\<close> is returned unchanged; the empty candidate names the directory
  itself and resolves to \<open>_1\<close>.
\<close>

theorem next_free_name_contract_witness:
  "path_exists disk_taken (join ''/d'' ''out.png'')
   \<and> next_free_name disk_taken ''/d'' ''out.png'' = ''out_2.png''
   \<and> \<not> path_exists disk_taken (join ''/d'' ''out_2.png'')
   \<and> next_free_name disk_taken ''/d'' ''out_2.png'' = ''out_2.png''
   \<and> \<not> path_exists disk_taken (join ''/d'' ''new.png'')
   \<and> next_free_name disk_taken ''/d'' ''new.png'' = ''new.png''
   \<and> path_exists disk_taken (join ''/d'' ''./out.png'')
   \<and> next_free_name disk_taken ''/d'' ''./out.png'' = ''./out_2.png''
   \<and> path_exists disk_taken (join ''/d'' [])
   \<and> next_free_name disk_taken ''/d'' [] = ''_1''"
proof -
  have ex: "path_exists disk_taken (join ''/d'' ''out.png'')"
    "path_exists disk_taken (join ''/d'' ''./out.png'')"
    "path_exists disk_taken (join ''/d'' [])"
    by code_simp+
  have r: "next_free_name disk_taken ''/d'' ''out.png'' = ''out_2.png''"
    "next_free_name disk_taken ''/d'' ''./out.png'' = ''./out_2.png''"
    "next_free_name disk_taken ''/d'' [] = ''_1''"
    by code_simp+
  have nex: "\<not> path_exists disk_taken (join ''/d'' ''new.png'')"
    by code_simp
  from next_free_name_contract[of disk_taken "''/d''" "''out.png''"]
    next_free_name_contract[of disk_taken "''/d''" "''new.png''"] ex r nex
  show ?thesis by simp
qed

section \<open>Plans\<close>

lemma seq_plan_free:
  "(src, dst) \<in> set (seq_plan fmt fs directory prefix' padding separator pattern files n)
     \<Longrightarrow> \<not> path_exists fs dst"
proof (induction files arbitrary: n)
  case Nil
  then show ?case by simp
next
  case (Cons fname files)
  then show ?case
    using next_free_name_free[of fs directory
        "seq_newname fmt prefix' padding separator pattern fname n"]
    by auto
qed

lemma gui_plan_free:
  "(src, dst) \<in> set (gui_plan fmt fs pattern padding files n) \<Longrightarrow> \<not> path_exists fs dst"
proof (induction files arbitrary: n)
  case Nil
  then show ?case by simp
next
  case (Cons f files)
  then show ?case
    using next_free_name_free[of fs "dirname f" "gui_newname fmt pattern padding f n"]
    by auto
qed

lemma seq_perform_dry:
  "seq_perform fs True results
     = (fs, map (\<lambda>(src, dst). DryRun (basename src) (basename dst)) results, None)"
  by (induction results) auto

lemma rename_sequence_returns:
  assumes "snd (snd (rename_sequence fmt now fs directory prefix' start padding exts dry_run
             sort_by separator pattern map_csv)) = Inr results"
  shows "\<exists>files. find_images fs directory exts sort_by = Inr files
           \<and> results = seq_plan fmt fs directory prefix' padding separator pattern files start"
  using assms
  by (auto simp: rename_sequence_def Let_def split: sum.splits prod.splits option.splits)


text \<open>
  C1 fails in the code. The docstrings promise collision-safe renaming, and every destination
  is passed through \<open>next_free_name\<close>, but the check is against the disk as it is while the
  plan is built, never against the destinations already planned. With \<open>a.png\<close> (text \<open>A\<close>)
  and \<open>b.png\<close> (text \<open>B\<close>) in \<open>/d\<close>, the command line with \<open>--pattern x\<close> plans \<open>x.png\<close>
  for both files, and the live run renames both onto it: the directory is left with
  \<open>x.png\<close> alone, holding \<open>B\<close>, and the contents of \<open>a.png\<close> are gone. The GUI does the same
  with the pattern \<open>{{n}}\<close>, and on a disk that holds \<open>out.png\<close> and \<open>out_1.png\<close> the pattern
  \<open>./out\<close> plans \<open>./out_2.png\<close> twice.
\<close>

theorem plan_destinations_collide:
  "rename_sequence fmt_py 7 disk_ab ''/d'' [] 1 3 image_exts False ''name'' ''_'' (Some ''x'') None
     = (Disk [''d''] [([''d''], Dir), ([''d'', ''x.png''], File 0 ''B'')],
        [Renaming ''a.png'' ''x.png'', Renaming ''b.png'' ''x.png''],
        Inr [(''/d/a.png'', ''/d/x.png''), (''/d/b.png'', ''/d/x.png'')])
   \<and> \<not> distinct (map snd [(''/d/a.png'', ''/d/x.png''), (''/d/b.png'', ''/d/x.png'')])
   \<and> build_actions fmt_py disk_ab [''/d/a.png'', ''/d/b.png''] ''{{n}}'' 1 0
     = [(''/d/a.png'', ''/d/{n}.png''), (''/d/b.png'', ''/d/{n}.png'')]
   \<and> gui_perform disk_ab [(''/d/a.png'', ''/d/{n}.png''), (''/d/b.png'', ''/d/{n}.png'')]
     = (Disk [''d''] [([''d''], Dir), ([''d'', ''{n}.png''], File 0 ''B'')], [])
   \<and> snd (snd (rename_sequence fmt_py 7 disk_taken ''/d'' [] 1 3 image_exts True ''name'' ''_''
         (Some ''./out'') None))
     = Inr [(''/d/out.png'', ''/d/./out_2.png''), (''/d/out_1.png'', ''/d/./out_2.png'')]"
  by code_simp

text \<open>
  C3, as the code has it. Scenario A (\<open>a.png\<close> and \<open>b.png\<close>, pattern \<open>img_-n\<close>, start 1,
  padding 2) yields the plan \<open>[(a.png, img_01.png), (b.png, img_02.png)]\<close> in the GUI's
  \<open>_build_actions\<close>, whatever \<open>str.format\<close> does. The command line reaches the same plan
  with prefix \<open>img\<close>, separator \<open>_\<close> and padding 2.
\<close>

theorem scenario_A_plan:
  "build_actions fmt disk_ab [''/d/a.png'', ''/d/b.png''] ''img_-n'' 1 2
     = [(''/d/a.png'', ''/d/img_01.png''), (''/d/b.png'', ''/d/img_02.png'')]
   \<and> snd (snd (rename_sequence fmt now disk_ab ''/d'' ''img'' 1 2 image_exts dry_run ''name'' ''_''
         None None))
     = Inr [(''/d/a.png'', ''/d/img_01.png''), (''/d/b.png'', ''/d/img_02.png'')]"
proof
  show "build_actions fmt disk_ab [''/d/a.png'', ''/d/b.png''] ''img_-n'' 1 2
     = [(''/d/a.png'', ''/d/img_01.png''), (''/d/b.png'', ''/d/img_02.png'')]"
    by code_simp
next
  have f: "find_images disk_ab ''/d'' image_exts ''name'' = Inr [''a.png'', ''b.png'']"
    by code_simp
  have p: "seq_plan fmt disk_ab ''/d'' ''img'' 2 ''_'' None [''a.png'', ''b.png''] 1
      = [(''/d/a.png'', ''/d/img_01.png''), (''/d/b.png'', ''/d/img_02.png'')]"
    by code_simp
  have live: "seq_perform disk_ab False
        [(''/d/a.png'', ''/d/img_01.png''), (''/d/b.png'', ''/d/img_02.png'')]
      = (Disk [''d''] [([''d''], Dir), ([''d'', ''img_01.png''], File 0 ''A''),
            ([''d'', ''img_02.png''], File 0 ''B'')],
         [Renaming ''a.png'' ''img_01.png'', Renaming ''b.png'' ''img_02.png''], None)"
    by code_simp
  show "snd (snd (rename_sequence fmt now disk_ab ''/d'' ''img'' 1 2 image_exts dry_run ''name'' ''_''
         None None))
     = Inr [(''/d/a.png'', ''/d/img_01.png''), (''/d/b.png'', ''/d/img_02.png'')]"
    by (cases dry_run)
      (simp_all add: rename_sequence_def f p live seq_perform_dry seq_export_def given_def
         del: seq_plan.simps seq_perform.simps)
qed

text \<open>Witness for C3: the scenario with Python's \<open>str.format\<close> and a dry run.\<close>

theorem scenario_A_plan_witness:
  "map snd (build_actions fmt_py disk_ab [''/d/a.png'', ''/d/b.png''] ''img_-n'' 1 2)
     = [''/d/img_01.png'', ''/d/img_02.png'']
   \<and> snd (snd (rename_sequence fmt_py 0 disk_ab ''/d'' ''img'' 1 2 image_exts True ''name'' ''_''
         None None))
     = Inr [(''/d/a.png'', ''/d/img_01.png''), (''/d/b.png'', ''/d/img_02.png'')]"
  using scenario_A_plan[of fmt_py 0 True] by simp

text \<open>
  C3 as stated fails on the command line: its \<open>--pattern\<close> is a \<open>str.format\<close> template
  only, \<open>-n\<close> stays as it is, and both files of Scenario A get \<open>img_-n.png\<close>.
\<close>

theorem scenario_A_cli_pattern_counterexample:
  "py_format ''img_-n'' 1 = Rendered ''img_-n''
   \<and> snd (snd (rename_sequence fmt_py 0 disk_ab ''/d'' [] 1 2 image_exts True ''name'' ''_''
         (Some ''img_-n'') None))
     = Inr [(''/d/a.png'', ''/d/img_-n.png''), (''/d/b.png'', ''/d/img_-n.png'')]
   \<and> snd (snd (rename_sequence fmt_py 0 disk_ab ''/d'' [] 1 2 image_exts True ''name'' ''_''
         (Some ''img_-n'') None))
     \<noteq> Inr [(''/d/a.png'', ''/d/img_01.png''), (''/d/b.png'', ''/d/img_02.png'')]"
  by code_simp




section \<open>Rendering the index\<close>








lemma replace_token_absent: "\<not> contains ''-n'' s \<Longrightarrow> replace_token new s = s"
  by (induction new s rule: replace_token.induct) auto



lemma contains_prefix: "prefix sub s \<Longrightarrow> contains sub s"
  by (cases s) auto









text \<open>
  C6, as the code has it. In \<open>render_name\<close>, for a pattern containing \<open>{n\<close> on which
  \<open>str.format\<close> raises, the name is the pattern with every \<open>-n\<close> replaced by the decimal
  index (then the source extension, if the name has none); a failing pattern without
  \<open>-n\<close> therefore stays as it is, and the index is not appended. In \<open>rename_sequence\<close> a
  failing pattern is replaced by prefix, separator and zero-padded number (the number alone
  when the prefix is empty). Both return a name: the error does not reach the caller.
\<close>

theorem render_fallback:
  "(contains ''{n'' pattern \<and> fmt pattern n = None
      \<longrightarrow> render_name fmt pattern n src_ext
            = (let name = replace_token (py_str n) pattern
               in if snd (splitext name) = [] then name @ src_ext else name)
          \<and> (\<not> contains ''-n'' pattern
               \<longrightarrow> render_name fmt pattern n src_ext
                     = (if snd (splitext pattern) = [] then pattern @ src_ext else pattern)))
   \<and> (given pat = Some pattern \<and> fmt pattern n = None
      \<longrightarrow> seq_newname fmt prefix' padding separator pat fname n
            = (let rendered = numbered prefix' separator (zfill (py_str n) padding)
               in if snd (splitext rendered) \<noteq> [] then rendered
                  else rendered @ snd (splitext fname)))"
  by (auto simp: render_name_def seq_newname_def replace_token_absent Let_def)

text \<open>
  Witness for C6: the unclosed field of \<open>x-n{n\<close> makes \<open>str.format\<close> raise; the GUI
  renders \<open>x1{n.png\<close>, the command line \<open>001.png\<close>.
\<close>

theorem render_fallback_witness:
  "contains ''{n'' ''x-n{n'' \<and> py_format ''x-n{n'' 1 = Raised
   \<and> render_name fmt_py ''x-n{n'' 1 ''.png'' = ''x1{n.png''
   \<and> seq_newname fmt_py [] 3 ''_'' (Some ''x-n{n'') ''a.png'' 1 = ''001.png''"
proof -
  have h: "contains ''{n'' ''x-n{n'' \<and> fmt_py ''x-n{n'' 1 = None"
    "given (Some ''x-n{n'') = Some ''x-n{n'' \<and> fmt_py ''x-n{n'' 1 = None"
    by code_simp+
  note t = render_fallback[of "''x-n{n''" fmt_py 1 "''.png''" "Some ''x-n{n''" "[]" 3 "''_''"
      "''a.png''"]
  from t h(1) have "render_name fmt_py ''x-n{n'' 1 ''.png''
      = (let name = replace_token (py_str 1) ''x-n{n''
         in if snd (splitext name) = [] then name @ ''.png'' else name)"
    by blast
  also have "\<dots> = ''x1{n.png''"
    by code_simp
  finally have 1: "render_name fmt_py ''x-n{n'' 1 ''.png'' = ''x1{n.png''" .
  from t h(2) have "seq_newname fmt_py [] 3 ''_'' (Some ''x-n{n'') ''a.png'' 1
      = (let rendered = numbered [] ''_'' (zfill (py_str 1) 3)
         in if snd (splitext rendered) \<noteq> [] then rendered
            else rendered @ snd (splitext ''a.png''))"
    by blast
  also have "\<dots> = ''001.png''"
    by code_simp
  finally have 2: "seq_newname fmt_py [] 3 ''_'' (Some ''x-n{n'') ''a.png'' 1 = ''001.png''" .
  have 3: "contains ''{n'' ''x-n{n''" "py_format ''x-n{n'' 1 = Raised"
    by code_simp+
  from 1 2 3 show ?thesis by blast
qed

text \<open>
  C6 as stated fails. The pattern \<open>{n\<close> makes \<open>str.format\<close> raise and holds no \<open>-n\<close>:
  \<open>render_name\<close> returns \<open>{n.png\<close>, not the pattern followed by the index. On the command
  line the failing pattern \<open>x-n{n\<close> gives \<open>001.png\<close>, not the token replacement.
\<close>

theorem render_fallback_counterexample:
  "contains ''{n'' ''{n'' \<and> py_format ''{n'' 1 = Raised \<and> \<not> contains ''-n'' ''{n''
   \<and> render_name fmt_py ''{n'' 1 ''.png'' = ''{n.png''
   \<and> render_name fmt_py ''{n'' 1 ''.png'' \<noteq> (''{n'' @ py_str 1) @ ''.png''
   \<and> render_name fmt_py ''{n'' 1 [] \<noteq> ''{n'' @ py_str 1
   \<and> py_format ''x-n{n'' 1 = Raised
   \<and> seq_newname fmt_py [] 3 ''_'' (Some ''x-n{n'') ''a.png'' 1 = ''001.png''
   \<and> seq_newname fmt_py [] 3 ''_'' (Some ''x-n{n'') ''a.png'' 1
       \<noteq> replace_token (py_str 1) ''x-n{n'' @ ''.png''"
  by code_simp

section \<open>Execution\<close>

lemma map_perform_dry:
  "map_perform fs True actions
     = (fs, map (\<lambda>(src, dst). DryRun (basename src) (basename dst)) actions)"
  by (induction actions) auto

lemma map_of_replace_other:
  "p \<noteq> q \<Longrightarrow>
   map_of (map (\<lambda>(k, x). if k = q then (k, nd) else (k, x)) es) p = map_of es p"
  by (induction es) auto

lemma map_of_replace_same:
  "map_of es q = Some x \<Longrightarrow>
   map_of (map (\<lambda>(k, x). if k = q then (k, nd) else (k, x)) es) q = Some nd"
  by (induction es) (auto split: if_splits)

lemma write_file_resolves:
  assumes "write_file now fs path text = Inr fs'"
  obtains q where "resolve fs path = Inr q" and "node_at fs q \<noteq> Some Dir"
  using assms
  by (auto simp: write_file_def split: sum.splits option.splits node.splits)

lemma write_file_cwd:
  assumes "write_file now fs path text = Inr fs'"
  shows "cwd fs' = cwd fs"
  using assms
  by (auto simp: write_file_def split: sum.splits option.splits node.splits)

lemma write_file_node:
  assumes "write_file now fs path text = Inr fs'" and "resolve fs path = Inr q"
  shows "node_at fs' p = (if p = q then Some (File now text) else node_at fs p)"
proof -
  from assms have nd: "node_at fs q \<noteq> Some Dir"
    by (auto simp: write_file_def split: option.splits node.splits)
  then have q: "q \<noteq> []" by (auto simp: node_at_def)
  show ?thesis
  proof (cases "node_at fs q")
    case None
    with assms have fs': "fs' = Disk (cwd fs) (entries fs @ [(q, File now text)])"
      by (simp add: write_file_def)
    from None q have "map_of (entries fs) q = None" by (simp add: node_at_def)
    then show ?thesis using q by (auto simp: fs' node_at_def map_add_def split: option.splits)
  next
    case (Some x)
    with nd obtain t s where x: "x = File t s" by (cases x) auto
    with Some assms have fs': "fs' = Disk (cwd fs)
        (map (\<lambda>(k, x). if k = q then (k, File now text) else (k, x)) (entries fs))"
      by (simp add: write_file_def)
    from Some q have "map_of (entries fs) q = Some x" by (simp add: node_at_def)
    then show ?thesis
      using q by (auto simp: fs' node_at_def map_of_replace_other map_of_replace_same)
  qed
qed

lemma write_file_ok:
  assumes "resolve fs path = Inr q" and "node_at fs q \<noteq> Some Dir"
  shows "\<exists>fs'. write_file now fs path text = Inr fs'"
  using assms by (auto simp: write_file_def split: option.splits node.splits)

lemma seq_export_cwd: "cwd (fst (seq_export now fs map_csv results)) = cwd fs"
  by (auto simp: seq_export_def write_file_cwd split: option.splits sum.splits)

lemma seq_export_other:
  assumes "given map_csv = Some path" and "resolve fs path \<noteq> Inr q"
  shows "node_at (fst (seq_export now fs map_csv results)) q = node_at fs q"
proof (cases "write_file now fs path (csv_export results)")
  case (Inl e)
  with assms show ?thesis by (simp add: seq_export_def)
next
  case (Inr fs')
  then obtain q' where q': "resolve fs path = Inr q'" by (rule write_file_resolves)
  with assms have "q \<noteq> q'" by auto
  with write_file_node[OF Inr q', of q] assms Inr show ?thesis by (simp add: seq_export_def)
qed

lemma seq_export_written:
  assumes "given map_csv = Some path" and "resolve fs path = Inr q"
    and "node_at fs q \<noteq> Some Dir"
  shows "node_at (fst (seq_export now fs map_csv results)) q
           = Some (File now (csv_export results))
         \<and> snd (seq_export now fs map_csv results) = [MappingWritten path]"
proof -
  from write_file_ok[OF assms(2,3)] obtain fs' where
    w: "write_file now fs path (csv_export results) = Inr fs'"
    by blast
  from write_file_node[OF w assms(2), of q] w assms(1) show ?thesis
    by (simp add: seq_export_def)
qed

lemma rename_sequence_dry_disk:
  "fst (rename_sequence fmt now fs directory prefix' start padding exts True
          sort_by separator pattern map_csv)
   = (case find_images fs directory exts sort_by of
        Inl e \<Rightarrow> fs
      | Inr files \<Rightarrow>
          fst (seq_export now fs map_csv
                 (seq_plan fmt fs directory prefix' padding separator pattern files start)))"
  by (simp add: rename_sequence_def seq_perform_dry Let_def split: sum.splits prod.splits)

lemma rename_sequence_dry_out:
  assumes "find_images fs directory exts sort_by = Inr files"
  shows "fst (snd (rename_sequence fmt now fs directory prefix' start padding exts True
          sort_by separator pattern map_csv))
   = map (\<lambda>(src, dst). DryRun (basename src) (basename dst))
       (seq_plan fmt fs directory prefix' padding separator pattern files start)
     @ snd (seq_export now fs map_csv
              (seq_plan fmt fs directory prefix' padding separator pattern files start))"
  using assms
  by (simp add: rename_sequence_def seq_perform_dry Let_def split: sum.splits prod.splits)

lemma rename_sequence_dry_written:
  assumes g: "given map_csv = Some path" and r: "resolve fs path = Inr q"
    and nd: "node_at fs q \<noteq> Some Dir"
    and ret: "snd (snd (rename_sequence fmt now fs directory prefix' start padding exts True
                 sort_by separator pattern map_csv)) = Inr results"
  shows "node_at (fst (rename_sequence fmt now fs directory prefix' start padding exts True
                 sort_by separator pattern map_csv)) q
            = Some (File now (csv_export results))
          \<and> fst (snd (rename_sequence fmt now fs directory prefix' start padding exts True
                 sort_by separator pattern map_csv))
            = map (\<lambda>(src, dst). DryRun (basename src) (basename dst)) results
              @ [MappingWritten path]"
proof -
  from rename_sequence_returns[OF ret] obtain fl where
    fl: "find_images fs directory exts sort_by = Inr fl"
    and res: "results = seq_plan fmt fs directory prefix' padding separator pattern fl start"
    by blast
  note w = seq_export_written[OF g r nd, of now results]
  show ?thesis
    unfolding rename_sequence_dry_disk rename_sequence_dry_out[OF fl] fl sum.case res[symmetric]
    using w by simp
qed

lemma apply_csv_mapping_dry_disk: "fst (apply_csv_mapping fs directory csv_path True) = fs"
proof (cases "isfile fs csv_path")
  case False
  then show ?thesis by (simp add: apply_csv_mapping_def)
next
  case True
  obtain rs err where r: "csv_reader (file_text fs csv_path) = (rs, err)"
    by (cases "csv_reader (file_text fs csv_path)")
  show ?thesis
  proof (cases rs)
    case Nil
    with True r show ?thesis by (simp add: apply_csv_mapping_def)
  next
    case (Cons fieldnames rows)
    obtain out actions e where m:
      "map_rows fs directory fieldnames (filter (\<lambda>row. row \<noteq> []) rows) = (out, actions, e)"
      by (cases "map_rows fs directory fieldnames (filter (\<lambda>row. row \<noteq> []) rows)")
    show ?thesis
      using True r Cons m
      by (cases e; cases err) (simp_all add: apply_csv_mapping_def map_perform_dry)
  qed
qed

text \<open>
  C4 as stated fails: a dry run of \<open>rename_sequence\<close> with the mapping path \<open>/d/m.csv\<close>
  creates that file, and one run from \<open>/d\<close> with the mapping path \<open>a.png\<close> replaces the
  contents of the image \<open>/d/a.png\<close> by the mapping.
\<close>

theorem dry_run_writes_mapping_counterexample:
  "\<not> path_exists disk_ab ''/d/m.csv''
   \<and> isfile (fst (rename_sequence fmt_py 7 disk_ab ''/d'' [] 1 3 image_exts True ''name'' ''_''
         None (Some ''/d/m.csv''))) ''/d/m.csv''
   \<and> fst (rename_sequence fmt_py 7 disk_ab ''/d'' [] 1 3 image_exts True ''name'' ''_''
         None (Some ''/d/m.csv'')) \<noteq> disk_ab
   \<and> file_text disk_ab ''/d/a.png'' = ''A''
   \<and> file_text (fst (rename_sequence fmt_py 7 disk_ab ''/d'' [] 1 3 image_exts True ''name'' ''_''
         None (Some ''a.png''))) ''/d/a.png''
     = csv_export [(''/d/a.png'', ''/d/001.png''), (''/d/b.png'', ''/d/002.png'')]"
  by code_simp

text \<open>
  C4, as the code has it. With \<open>dry_run\<close> set nothing is renamed. \<open>rename_sequence\<close>
  without a mapping path, and \<open>apply_csv_mapping\<close>, leave the disk as it was.
  \<open>rename_sequence\<close> with a mapping path leaves the working directory and every location
  other than the one the mapping path names as they were; and where the mapping path names
  a location that is not a directory, a dry run that returns the plan has written it there:
  the location holds a file with the mapping of the plan, and the message about the
  written mapping is printed last.
\<close>

theorem dry_run_frame:
  "(given map_csv = None
      \<longrightarrow> fst (rename_sequence fmt now fs directory prefix' start padding exts True
                 sort_by separator pattern map_csv) = fs)
   \<and> cwd (fst (rename_sequence fmt now fs directory prefix' start padding exts True
                 sort_by separator pattern map_csv)) = cwd fs
   \<and> (given map_csv = Some path \<and> resolve fs path \<noteq> Inr q
      \<longrightarrow> node_at (fst (rename_sequence fmt now fs directory prefix' start padding exts True
                 sort_by separator pattern map_csv)) q = node_at fs q)
   \<and> (given map_csv = Some path \<and> resolve fs path = Inr q \<and> node_at fs q \<noteq> Some Dir
        \<and> snd (snd (rename_sequence fmt now fs directory prefix' start padding exts True
                 sort_by separator pattern map_csv)) = Inr results
      \<longrightarrow> node_at (fst (rename_sequence fmt now fs directory prefix' start padding exts True
                 sort_by separator pattern map_csv)) q
            = Some (File now (csv_export results))
          \<and> fst (snd (rename_sequence fmt now fs directory prefix' start padding exts True
                 sort_by separator pattern map_csv))
            = map (\<lambda>(src, dst). DryRun (basename src) (basename dst)) results
              @ [MappingWritten path])
   \<and> fst (apply_csv_mapping fs directory csv_path True) = fs"
proof (intro conjI impI)
  assume "given map_csv = None"
  then show "fst (rename_sequence fmt now fs directory prefix' start padding exts True
                 sort_by separator pattern map_csv) = fs"
    by (simp add: rename_sequence_dry_disk seq_export_def split: sum.splits)
next
  show "cwd (fst (rename_sequence fmt now fs directory prefix' start padding exts True
                 sort_by separator pattern map_csv)) = cwd fs"
    by (simp add: rename_sequence_dry_disk seq_export_cwd split: sum.splits)
next
  assume "given map_csv = Some path \<and> resolve fs path \<noteq> Inr q"
  then show "node_at (fst (rename_sequence fmt now fs directory prefix' start padding exts True
                 sort_by separator pattern map_csv)) q = node_at fs q"
    by (simp add: rename_sequence_dry_disk seq_export_other split: sum.splits)
next
  assume "given map_csv = Some path \<and> resolve fs path = Inr q \<and> node_at fs q \<noteq> Some Dir
        \<and> snd (snd (rename_sequence fmt now fs directory prefix' start padding exts True
                 sort_by separator pattern map_csv)) = Inr results"
  then show "node_at (fst (rename_sequence fmt now fs directory prefix' start padding exts True
                 sort_by separator pattern map_csv)) q
            = Some (File now (csv_export results))"
    using rename_sequence_dry_written by blast
next
  assume "given map_csv = Some path \<and> resolve fs path = Inr q \<and> node_at fs q \<noteq> Some Dir
        \<and> snd (snd (rename_sequence fmt now fs directory prefix' start padding exts True
                 sort_by separator pattern map_csv)) = Inr results"
  then show "fst (snd (rename_sequence fmt now fs directory prefix' start padding exts True
                 sort_by separator pattern map_csv))
            = map (\<lambda>(src, dst). DryRun (basename src) (basename dst)) results
              @ [MappingWritten path]"
    using rename_sequence_dry_written by blast
next
  show "fst (apply_csv_mapping fs directory csv_path True) = fs"
    by (rule apply_csv_mapping_dry_disk)
qed

text \<open>
  Witness for C4: a dry run from \<open>/d\<close> over \<open>a.png\<close> and \<open>b.png\<close> with the mapping path
  \<open>m.csv\<close> writes \<open>/d/m.csv\<close> and leaves \<open>/d/a.png\<close> as it was, and a dry run without a
  mapping path leaves the disk.
\<close>

theorem dry_run_frame_witness:
  "given (Some ''m.csv'') = Some ''m.csv''
   \<and> resolve disk_ab ''m.csv'' = Inr [''d'', ''m.csv'']
   \<and> node_at disk_ab [''d'', ''m.csv''] = None
   \<and> node_at (fst (rename_sequence fmt_py 7 disk_ab ''/d'' [] 1 3 image_exts True ''name'' ''_''
         None (Some ''m.csv''))) [''d'', ''a.png''] = Some (File 0 ''A'')
   \<and> node_at (fst (rename_sequence fmt_py 7 disk_ab ''/d'' [] 1 3 image_exts True ''name'' ''_''
         None (Some ''m.csv''))) [''d'', ''m.csv'']
     = Some (File 7 (csv_export [(''/d/a.png'', ''/d/001.png''), (''/d/b.png'', ''/d/002.png'')]))
   \<and> fst (rename_sequence fmt_py 7 disk_ab ''/d'' [] 1 3 image_exts True ''name'' ''_''
         None None) = disk_ab"
proof -
  let ?plan = "[(''/d/a.png'', ''/d/001.png''), (''/d/b.png'', ''/d/002.png'')]"
  have g: "given (Some ''m.csv'') = Some ''m.csv''" "given None = None"
    by code_simp+
  have r: "resolve disk_ab ''m.csv'' = Inr [''d'', ''m.csv'']"
    by code_simp
  have n: "node_at disk_ab [''d'', ''m.csv''] = None"
    "node_at disk_ab [''d'', ''a.png''] = Some (File 0 ''A'')"
    by code_simp+
  have ret: "snd (snd (rename_sequence fmt_py 7 disk_ab ''/d'' [] 1 3 image_exts True ''name'' ''_''
         None (Some ''m.csv''))) = Inr ?plan"
    by code_simp
  have h3: "given (Some ''m.csv'') = Some ''m.csv''
      \<and> resolve disk_ab ''m.csv'' \<noteq> Inr [''d'', ''a.png'']"
    using g r by simp
  have h4: "given (Some ''m.csv'') = Some ''m.csv''
      \<and> resolve disk_ab ''m.csv'' = Inr [''d'', ''m.csv'']
      \<and> node_at disk_ab [''d'', ''m.csv''] \<noteq> Some Dir
      \<and> snd (snd (rename_sequence fmt_py 7 disk_ab ''/d'' [] 1 3 image_exts True ''name'' ''_''
           None (Some ''m.csv''))) = Inr ?plan"
    using g r n ret by simp
  from dry_run_frame[where map_csv = "Some ''m.csv''" and fmt = fmt_py and now = 7
      and fs = disk_ab and directory = "''/d''" and prefix' = "[]" and start = 1 and padding = 3
      and exts = image_exts and sort_by = "''name''" and separator = "''_''" and pattern = None
      and path = "''m.csv''" and q = "[''d'', ''a.png'']"] h3
  have 1: "node_at (fst (rename_sequence fmt_py 7 disk_ab ''/d'' [] 1 3 image_exts True ''name''
         ''_'' None (Some ''m.csv''))) [''d'', ''a.png''] = node_at disk_ab [''d'', ''a.png'']"
    by blast
  from dry_run_frame[where map_csv = "Some ''m.csv''" and fmt = fmt_py and now = 7
      and fs = disk_ab and directory = "''/d''" and prefix' = "[]" and start = 1 and padding = 3
      and exts = image_exts and sort_by = "''name''" and separator = "''_''" and pattern = None
      and path = "''m.csv''" and q = "[''d'', ''m.csv'']" and results = ?plan] h4
  have 2: "node_at (fst (rename_sequence fmt_py 7 disk_ab ''/d'' [] 1 3 image_exts True ''name''
         ''_'' None (Some ''m.csv''))) [''d'', ''m.csv''] = Some (File 7 (csv_export ?plan))"
    by blast
  from dry_run_frame[where map_csv = None and fmt = fmt_py and now = 7
      and fs = disk_ab and directory = "''/d''" and prefix' = "[]" and start = 1 and padding = 3
      and exts = image_exts and sort_by = "''name''" and separator = "''_''" and pattern = None]
    g(2)
  have 3: "fst (rename_sequence fmt_py 7 disk_ab ''/d'' [] 1 3 image_exts True ''name'' ''_''
         None None) = disk_ab"
    by blast
  from g(1) r n 1 2 3 show ?thesis by simp
qed

lemma header_without_columns:
  assumes "isfile fs csv_path"
    and "csv_reader (file_text fs csv_path) = (fieldnames # rows, err)"
    and "''name_raw'' \<notin> set fieldnames \<or> ''name_change'' \<notin> set fieldnames"
  shows "apply_csv_mapping fs directory csv_path dry_run = (fs, [BadHeader], Inr [])"
  using assms by (auto simp: apply_csv_mapping_def)

text \<open>
  C9 fails in the code on a mapping file without a first record. The empty file \<open>/m.csv\<close>
  has no header row, so it lacks both columns; \<open>reader.fieldnames\<close> is \<open>None\<close>, the test
  \<open>'name_raw' not in reader.fieldnames\<close> raises \<open>TypeError\<close>, and \<open>apply_csv_mapping\<close> ends
  with that exception: the message about the headers is not printed and no list is
  returned, with and without \<open>dry_run\<close>. The disk is left as it was. A mapping file whose
  first record lacks a column, as \<open>name,name_change\<close> does, gets the message and the empty
  list.
\<close>

theorem empty_mapping_file_raises:
  "isfile disk_empty_mapping ''/m.csv''
   \<and> file_text disk_empty_mapping ''/m.csv'' = []
   \<and> csv_reader [] = ([], None)
   \<and> apply_csv_mapping disk_empty_mapping ''/d'' ''/m.csv'' False
       = (disk_empty_mapping, [], Inl TypeError)
   \<and> apply_csv_mapping disk_empty_mapping ''/d'' ''/m.csv'' True
       = (disk_empty_mapping, [], Inl TypeError)
   \<and> apply_csv_mapping disk_bad_header ''/d'' ''/m.csv'' False
       = (disk_bad_header, [BadHeader], Inr [])"
  by code_simp

text \<open>
  Witness for C9's failing input: the live import of the empty mapping file returns no
  list, it ends with \<open>TypeError\<close>.
\<close>

theorem empty_mapping_file_raises_witness:
  "snd (snd (apply_csv_mapping disk_empty_mapping ''/d'' ''/m.csv'' False)) = Inl TypeError"
  using empty_mapping_file_raises by simp

text \<open>
  C2 at a failing input. The directory \<open>/d\<close> holds the directory \<open>2\<close> and the files
  \<open>a.png\<close> and \<open>b.png\<close>; the pattern \<open>{n}/x\<close> plans \<open>a.png\<close> to \<open>/d/1/x.png\<close>, whose
  directory does not exist, and \<open>b.png\<close> to \<open>/d/2/x.png\<close>. The live run of
  \<open>rename_sequence\<close> ends with the exception of the first \<open>os.rename\<close> and leaves
  \<open>b.png\<close> where it was; the loops of the GUI and of the mapping import, on the same
  plan, record the failure and rename \<open>b.png\<close>.
\<close>

theorem sequence_rename_aborts_on_failure:
  "rename_sequence fmt_py 7 disk_sub ''/d'' [] 1 3 image_exts False ''name'' ''_''
       (Some ''{n}/x'') None
     = (disk_sub, [Renaming ''a.png'' ''x.png''], Inl FileNotFoundError)
   \<and> build_actions fmt_py disk_sub [''/d/a.png'', ''/d/b.png''] ''{n}/x'' 1 0
     = [(''/d/a.png'', ''/d/1/x.png''), (''/d/b.png'', ''/d/2/x.png'')]
   \<and> gui_perform disk_sub [(''/d/a.png'', ''/d/1/x.png''), (''/d/b.png'', ''/d/2/x.png'')]
     = (Disk [''d''] [([''d''], Dir), ([''d'', ''2''], Dir), ([''d'', ''a.png''], File 0 ''A''),
          ([''d'', ''2'', ''x.png''], File 0 ''B'')],
        [(''/d/a.png'', ''/d/1/x.png'', FileNotFoundError)])
   \<and> map_perform disk_sub False [(''/d/a.png'', ''/d/1/x.png''), (''/d/b.png'', ''/d/2/x.png'')]
     = (Disk [''d''] [([''d''], Dir), ([''d'', ''2''], Dir), ([''d'', ''a.png''], File 0 ''A''),
          ([''d'', ''2'', ''x.png''], File 0 ''B'')],
        [Renaming ''a.png'' ''x.png'',
         RenameFailed ''/d/a.png'' ''/d/1/x.png'' FileNotFoundError,
         Renaming ''b.png'' ''x.png''])"
  by code_simp

section \<open>Reading back what the writer wrote\<close>













section \<open>Mapping round trip\<close>



























end
